theory Spec2Isabelle
  imports Complex_Main "HOL-Library.AList" "HOL-Library.Word"
begin

section \<open>Python values and errors\<close>

text \<open>
  The exceptions the code can raise. The program defines no exception class of its own:
  a failed lookup by name in the container (\<open>section[key]\<close>, \<open>blocks[name]\<close>,
  \<open>del refs[name]\<close>) raises Python's \<open>KeyError\<close> (the code catches exactly that
  class in its try/except blocks), \<open>dimensions[0]\<close> of an array without dimensions is an
  \<open>IndexError\<close>, a missing attribute (\<open>None.close()\<close>, a name that the units
  package does not define) is an \<open>AttributeError\<close>, and an operation on a value of
  the wrong type (\<open>float\<close> of a list, None where a section or a string is needed) is
  a \<open>TypeError\<close>. \<open>float\<close> of a string that spells no number and a signal
  constructed without units are a \<open>ValueError\<close>, a unit that the units package does
  not find a \<open>LookupError\<close>.
  \<open>MissingUnitError\<close> is the name used by the specification for a quantity without
  its unit; no function of the embedding ever returns it.
\<close>

datatype error =
    KeyError string | IndexError | AttributeError | TypeError | ValueError | LookupError
  | MissingUnitError

text \<open>
  A scalar that the container's typed property system can hold (\<open>nix.Value(x)\<close>).
  Floats are carried around and compared, never computed with, so they are modelled
  as exact numbers.
\<close>

datatype atom = ABool bool | AInt int | AFloat real | AStr string

text \<open>A value other than None: a scalar, a list or a tuple of scalars.\<close>

datatype val = Atom atom | List "atom list" | Tuple "atom list"

datatype pyval = PNone | PVal val

text \<open>A Python dict with string keys, in iteration order.\<close>

type_synonym 'v dict = "(string \<times> 'v) list"

text \<open>A physical quantity: \<open>q.item()\<close> and \<open>q.units.dimensionality.string\<close>.\<close>

record quantity =
  item :: real
  q_units :: string

type_synonym bytes = "8 word list"

text \<open>A numeric array: its dtype and \<open>tostring()\<close>, the raw bytes of its elements.\<close>

record ndarray =
  dtype :: string
  tostring :: bytes

section \<open>The container (NIX file)\<close>

type_synonym props = "(string \<times> atom list) list"

datatype nix_section =
  Section (sec_type: string) (sec_props: props) (sec_sections: "(string \<times> nix_section) list")

text \<open>
  The metadata attribute of an entity links it to a section below the block's own
  section: the name of the group section and the name of the section in it.
\<close>

type_synonym link = "string \<times> string"

datatype dimension_kind = SampledDimension | RangeDimension | SetDimension

record dimension =
  dim_kind :: dimension_kind
  sampling_interval :: real
  dim_unit :: "string option"
  ticks :: "ndarray option"
  labels :: "string list"

text \<open>A source is identified by its path below the block: \<open>[rcg]\<close> or \<open>[rcg, unit]\<close>.\<close>

type_synonym source_id = "string list"

record data_array =
  da_type :: string
  da_dtype :: string
  da_data :: "bytes list"
  da_unit :: "string option"
  dimensions :: "dimension list"
  da_sources :: "source_id list"
  da_metadata :: "link option"

datatype source =
  Source (src_type: string) (src_metadata: "link option") (src_sources: "(string \<times> source) list")

record tag =
  tag_type :: string
  references :: "string list"
  tag_metadata :: "link option"

text \<open>
  A block of the file with its metadata section. \<open>sweeps\<close> is not stored in the file:
  it counts how many times \<open>Writer.Help.clean\<close> has run on the block.
\<close>

record nix_block =
  blk_metadata :: nix_section
  tags :: "(string \<times> tag) list"
  sources :: "(string \<times> source) list"
  data_arrays :: "(string \<times> data_array) list"
  sweeps :: nat

type_synonym nix_file = "(string \<times> nix_block) list"

section \<open>File operations\<close>

datatype file_mode = ReadOnly | ReadWrite | Overwrite

record nix_handle =
  h_mode :: file_mode
  h_is_open :: bool

record file_handler =
  filename :: string
  readonly :: bool
  handle :: "nix_handle option"

text \<open>The files on disk: \<open>os.path.exists(name)\<close> is \<open>fs name \<noteq> None\<close>.\<close>

type_synonym file_system = "string \<Rightarrow> nix_file option"

definition FileHandler_init :: "string \<Rightarrow> bool \<Rightarrow> file_handler" where
  "FileHandler_init fname ro = \<lparr>filename = fname, readonly = ro, handle = None\<rparr>"

definition open_filemode :: "file_handler \<Rightarrow> bool \<Rightarrow> file_mode" where
  "open_filemode fh exists =
     (if exists then (if readonly fh then ReadOnly else ReadWrite) else Overwrite)"

text \<open>\<open>nix.File.open\<close> in mode Overwrite creates the file, empty.\<close>

definition FileHandler_open :: "file_system \<Rightarrow> file_handler \<Rightarrow> file_system \<times> file_handler" where
  "FileHandler_open fs fh =
     (let filemode = open_filemode fh (fs (filename fh) \<noteq> None);
          fs' = (if filemode = Overwrite then fs(filename fh \<mapsto> []) else fs)
      in (fs', fh\<lparr>handle := Some \<lparr>h_mode = filemode, h_is_open = True\<rparr>\<rparr>))"

definition FileHandler_close :: "file_handler \<Rightarrow> error + file_handler" where
  "FileHandler_close fh =
     (case handle fh of
        None \<Rightarrow> Inl AttributeError
      | Some h \<Rightarrow> Inr (fh\<lparr>handle := Some (h\<lparr>h_is_open := False\<rparr>)\<rparr>))"

definition is_open :: "file_handler \<Rightarrow> bool" where
  "is_open fh = (case handle fh of None \<Rightarrow> False | Some h \<Rightarrow> h_is_open h)"

text \<open>What the handle reads: the blocks of the file it names.\<close>

definition file_contents :: "file_system \<Rightarrow> file_handler \<Rightarrow> nix_file" where
  "file_contents fs fh = (case fs (filename fh) of None \<Rightarrow> [] | Some f \<Rightarrow> f)"

subsection \<open>ProxyList\<close>

record 'a proxy_list =
  fetch_func :: "nix_file \<Rightarrow> error + 'a list"
  cache :: "'a list option"

definition ProxyList_init :: "(nix_file \<Rightarrow> error + 'a list) \<Rightarrow> 'a proxy_list" where
  "ProxyList_init fetch = \<lparr>fetch_func = fetch, cache = None\<rparr>"

text \<open>
  The property \<open>_data\<close>. The file handler is shared with the IO object, so it is
  part of the state that is passed in and returned, with the files on disk. The result
  is the cached list, or the exception that left the method.
\<close>

definition ProxyList_data ::
  "'a proxy_list \<Rightarrow> file_system \<times> file_handler \<Rightarrow>
     (error + 'a list) \<times> 'a proxy_list \<times> (file_system \<times> file_handler)" where
  "ProxyList_data p w =
     (case cache p of
        Some xs \<Rightarrow> (Inr xs, p, w)
      | None \<Rightarrow>
          (let should_close = \<not> is_open (snd w);
               w1 = (if should_close then FileHandler_open (fst w) (snd w) else w)
           in case fetch_func p (file_contents (fst w1) (snd w1)) of
                Inl e \<Rightarrow> (Inl e, p, w1)
              | Inr xs \<Rightarrow>
                  (if should_close
                   then (case FileHandler_close (snd w1) of
                           Inl e \<Rightarrow> (Inl e, p\<lparr>cache := Some xs\<rparr>, w1)
                         | Inr fh2 \<Rightarrow> (Inr xs, p\<lparr>cache := Some xs\<rparr>, (fst w1, fh2)))
                   else (Inr xs, p\<lparr>cache := Some xs\<rparr>, w1))))"

subsection \<open>NixIO\<close>

record nix_io =
  io_filename :: string
  io_f :: file_handler
  io_readonly :: bool

text \<open>\<open>FileHandler(filename)\<close>: the handler's \<open>readonly\<close> takes its default, False.\<close>

definition NixIO_init :: "string \<Rightarrow> bool \<Rightarrow> nix_io" where
  "NixIO_init fname ro =
     \<lparr>io_filename = fname, io_f = FileHandler_init fname False, io_readonly = ro\<rparr>"

section \<open>The object model (neo)\<close>

text \<open>
  The attributes the program reads. A block, a segment, a channel group and a unit are
  looked up in the container under their name, a string. Every child collection holds
  objects of one class.
\<close>

record neo_object =
  description :: pyval
  file_origin :: pyval
  annotations :: "pyval dict"

record data_object = neo_object +
  d_name :: pyval

text \<open>The signal kinds are arrays themselves: \<open>signal.tostring()\<close>, \<open>signal.dtype\<close>.\<close>

record signal_object = data_object +
  signal :: ndarray
  units :: string

record analogsignal = signal_object +
  sampling_rate :: quantity
  t_start :: quantity

record irregularlysampledsignal = signal_object +
  times :: ndarray
  times_units :: string

record spiketrain = signal_object +
  st_sampling_rate :: "quantity option"
  st_t_start :: quantity
  t_stop :: quantity
  left_sweep :: "quantity option"

record event = data_object +
  ev_times :: ndarray
  ev_labels :: "string list"

record epoch = data_object +
  ep_times :: ndarray
  durations :: ndarray
  ep_labels :: "string list"

record named_object = neo_object +
  name :: string

record neo_unit = named_object +
  unit_spiketrains :: "spiketrain list"

record recordingchannelgroup = named_object +
  channel_indexes :: pyval
  channel_names :: pyval
  rcg_units :: "neo_unit list"
  rcg_analogsignals :: "analogsignal list"
  rcg_irregularlysampledsignals :: "irregularlysampledsignal list"

record dated_object = named_object +
  file_datetime :: pyval
  rec_datetime :: pyval
  index :: pyval

record segment = dated_object +
  seg_analogsignals :: "analogsignal list"
  seg_irregularlysampledsignals :: "irregularlysampledsignal list"
  seg_spiketrains :: "spiketrain list"
  seg_events :: "event list"
  seg_epochs :: "epoch list"

record block = dated_object +
  segments :: "segment list"
  recordingchannelgroups :: "recordingchannelgroup list"

datatype neo_obj =
    Block block
  | Segment segment
  | RecordingChannelGroup recordingchannelgroup
  | Unit neo_unit
  | AnalogSignal analogsignal
  | IrregularlySampledSignal irregularlysampledsignal
  | SpikeTrain spiketrain
  | Event event
  | Epoch epoch

text \<open>The lower-case class names, the keys of \<open>simple_attrs\<close>.\<close>

datatype obj_type =
    OBlock | OSegment | ORecordingChannelGroup | OUnit | OAnalogSignal
  | OIrregularlySampledSignal | OSpikeTrain | OEvent | OEpoch

fun type_name :: "obj_type \<Rightarrow> string" where
  "type_name OBlock = ''block''"
| "type_name OSegment = ''segment''"
| "type_name ORecordingChannelGroup = ''recordingchannelgroup''"
| "type_name OUnit = ''unit''"
| "type_name OAnalogSignal = ''analogsignal''"
| "type_name OIrregularlySampledSignal = ''irregularlysampledsignal''"
| "type_name OSpikeTrain = ''spiketrain''"
| "type_name OEvent = ''event''"
| "type_name OEpoch = ''epoch''"

definition simple_attrs_default :: "string list" where
  "simple_attrs_default = [''description'', ''file_origin'']"

fun simple_attrs :: "obj_type \<Rightarrow> string list" where
  "simple_attrs OBlock = [''file_datetime'', ''rec_datetime'', ''index'']"
| "simple_attrs OSegment = [''file_datetime'', ''rec_datetime'', ''index'']"
| "simple_attrs OAnalogSignal = [''name'']"
| "simple_attrs OIrregularlySampledSignal = [''name'']"
| "simple_attrs OSpikeTrain = [''name'']"
| "simple_attrs OEvent = [''name'']"
| "simple_attrs OEpoch = [''name'']"
| "simple_attrs ORecordingChannelGroup = [''name'', ''channel_indexes'', ''channel_names'']"
| "simple_attrs OUnit = []"

fun get_classname :: "neo_obj \<Rightarrow> obj_type" where
  "get_classname (Block _) = OBlock"
| "get_classname (Segment _) = OSegment"
| "get_classname (RecordingChannelGroup _) = ORecordingChannelGroup"
| "get_classname (Unit _) = OUnit"
| "get_classname (AnalogSignal _) = OAnalogSignal"
| "get_classname (IrregularlySampledSignal _) = OIrregularlySampledSignal"
| "get_classname (SpikeTrain _) = OSpikeTrain"
| "get_classname (Event _) = OEvent"
| "get_classname (Epoch _) = OEpoch"

text \<open>
  \<open>getattr(neo_obj, attr_name, None)\<close> for the attribute names the program asks for:
  the names of \<open>simple_attrs\<close>.
\<close>

definition common_attr :: "'a neo_object_scheme \<Rightarrow> string \<Rightarrow> pyval" where
  "common_attr ob a =
     (if a = ''description'' then description ob
      else if a = ''file_origin'' then file_origin ob
      else PNone)"

definition data_attr :: "'a data_object_scheme \<Rightarrow> string \<Rightarrow> pyval" where
  "data_attr ob a = (if a = ''name'' then d_name ob else common_attr ob a)"

definition named_attr :: "'a named_object_scheme \<Rightarrow> string \<Rightarrow> pyval" where
  "named_attr ob a = (if a = ''name'' then PVal (Atom (AStr (name ob))) else common_attr ob a)"

definition dated_attr :: "'a dated_object_scheme \<Rightarrow> string \<Rightarrow> pyval" where
  "dated_attr ob a =
     (if a = ''file_datetime'' then file_datetime ob
      else if a = ''rec_datetime'' then rec_datetime ob
      else if a = ''index'' then index ob
      else named_attr ob a)"

fun getattr :: "neo_obj \<Rightarrow> string \<Rightarrow> pyval" where
  "getattr (Block b) a = dated_attr b a"
| "getattr (Segment s) a = dated_attr s a"
| "getattr (RecordingChannelGroup r) a =
     (if a = ''channel_indexes'' then channel_indexes r
      else if a = ''channel_names'' then channel_names r
      else named_attr r a)"
| "getattr (Unit u) a = named_attr u a"
| "getattr (AnalogSignal s) a = data_attr s a"
| "getattr (IrregularlySampledSignal s) a = data_attr s a"
| "getattr (SpikeTrain s) a = data_attr s a"
| "getattr (Event e) a = data_attr e a"
| "getattr (Epoch e) a = data_attr e a"

fun annotations_of :: "neo_obj \<Rightarrow> pyval dict" where
  "annotations_of (Block b) = annotations b"
| "annotations_of (Segment s) = annotations s"
| "annotations_of (RecordingChannelGroup r) = annotations r"
| "annotations_of (Unit u) = annotations u"
| "annotations_of (AnalogSignal s) = annotations s"
| "annotations_of (IrregularlySampledSignal s) = annotations s"
| "annotations_of (SpikeTrain s) = annotations s"
| "annotations_of (Event e) = annotations e"
| "annotations_of (Epoch e) = annotations e"

section \<open>Writer.Help: identities and the attribute codec\<close>

text \<open>\<open>str\<close> of an integer, in decimal.\<close>

definition digit_char :: "nat \<Rightarrow> char" where
  "digit_char d = ''0123456789'' ! d"

function str_nat :: "nat \<Rightarrow> string" where
  "str_nat n = (if n < 10 then [digit_char n] else str_nat (n div 10) @ [digit_char (n mod 10)])"
  by pat_completeness auto
termination
  by (relation "measure id") auto

definition str_int :: "int \<Rightarrow> string" where
  "str_int i = (if i < 0 then CHR ''-'' # str_nat (nat (- i)) else str_nat (nat i))"

text \<open>
  The name of an object in the container. Python's built-in \<open>hash\<close> of a byte string
  is a parameter: the program relies on no property of it.
\<close>

fun get_obj_nix_name :: "(bytes \<Rightarrow> int) \<Rightarrow> neo_obj \<Rightarrow> string" where
  "get_obj_nix_name hash (AnalogSignal s) = str_int (hash (tostring (signal s)))"
| "get_obj_nix_name hash (IrregularlySampledSignal s) = str_int (hash (tostring (signal s)))"
| "get_obj_nix_name hash (SpikeTrain s) = str_int (hash (tostring (signal s)))"
| "get_obj_nix_name hash (Event e) = str_int (hash (tostring (ev_times e)))"
| "get_obj_nix_name hash (Epoch e) = str_int (hash (tostring (ep_times e)))"
| "get_obj_nix_name hash (Block b) = name b"
| "get_obj_nix_name hash (Segment s) = name s"
| "get_obj_nix_name hash (RecordingChannelGroup r) = name r"
| "get_obj_nix_name hash (Unit u) = name u"

definition extract_metadata :: "neo_obj \<Rightarrow> pyval dict" where
  "extract_metadata neo_obj =
     foldl (\<lambda>metadata attr_name.
              if getattr neo_obj attr_name \<noteq> PNone
              then AList.update attr_name (getattr neo_obj attr_name) metadata
              else metadata)
       (annotations_of neo_obj)
       (simple_attrs_default @ simple_attrs (get_classname neo_obj))"

text \<open>
  \<open>get_or_create_section\<close> below the metadata section of a block: the root with the
  group section and the target section created when missing. A new section is the last
  of its siblings.
\<close>

definition get_or_create_section :: "nix_section \<Rightarrow> string \<Rightarrow> string \<Rightarrow> nix_section" where
  "get_or_create_section root_section group_name nm =
     (let group_sec = (case map_of (sec_sections root_section) (group_name @ ''s'') of
                         Some g \<Rightarrow> g
                       | None \<Rightarrow> Section group_name [] []);
          target_sec = (case map_of (sec_sections group_sec) nm of
                          Some t \<Rightarrow> t
                        | None \<Rightarrow> Section group_name [] []);
          group_sec' = Section (sec_type group_sec) (sec_props group_sec)
                         (AList.update nm target_sec (sec_sections group_sec))
      in Section (sec_type root_section) (sec_props root_section)
           (AList.update (group_name @ ''s'') group_sec' (sec_sections root_section)))"

definition section_at :: "nix_section \<Rightarrow> link \<Rightarrow> nix_section option" where
  "section_at root_section l =
     (case map_of (sec_sections root_section) (fst l) of
        None \<Rightarrow> None
      | Some g \<Rightarrow> map_of (sec_sections g) (snd l))"

definition map_section_props :: "(props \<Rightarrow> props) \<Rightarrow> nix_section \<Rightarrow> nix_section" where
  "map_section_props upd s = Section (sec_type s) (upd (sec_props s)) (sec_sections s)"

definition map_subsection :: "string \<Rightarrow> (nix_section \<Rightarrow> nix_section) \<Rightarrow> nix_section \<Rightarrow> nix_section" where
  "map_subsection nm upd s =
     Section (sec_type s) (sec_props s) (AList.map_entry nm upd (sec_sections s))"

definition make_nix_values :: "val \<Rightarrow> atom list" where
  "make_nix_values v = (case v of Atom a \<Rightarrow> [a] | List xs \<Rightarrow> xs | Tuple xs \<Rightarrow> xs)"

text \<open>The entries that \<open>write_metadata\<close> stores: those whose value is not None.\<close>

fun to_store :: "pyval dict \<Rightarrow> val dict" where
  "to_store [] = []"
| "to_store ((k, PNone) # kvs) = to_store kvs"
| "to_store ((k, PVal v) # kvs) = (k, v) # to_store kvs"

text \<open>
  What \<open>write_metadata\<close> does to the properties of a section: an assignment to the
  values of a property, or the creation of a property. The loop returns the properties
  and the mutations it performed, in order.

  The guard of the assignment is \<open>if not p.values == values\<close>. There
  \<open>values\<close> is the Python list that \<open>make_nix_values\<close> built, and
  \<open>p.values\<close> is what the container hands out for a property: a tuple of its
  values. In Python a tuple and a list are never equal, whatever they hold, so the
  comparison is between a \<open>Tuple\<close> and a \<open>List\<close>.

  The dictionary holds values that the container takes as they are: its own conversion
  of a scalar into a typed value, the width of its integers and its refusal of an empty
  sequence of values are not part of the embedding.
\<close>

datatype mutation = SetValues string "atom list" | CreateProperty string "atom list"

definition property_values :: "atom list \<Rightarrow> val" where
  "property_values stored = Tuple stored"

definition write_property :: "props \<times> mutation list \<Rightarrow> string \<times> val \<Rightarrow> props \<times> mutation list" where
  "write_property st kv =
     (let vs = make_nix_values (snd kv) in
      case map_of (fst st) (fst kv) of
        Some stored \<Rightarrow>
          (if \<not> property_values stored = List vs
           then (AList.update (fst kv) vs (fst st), snd st @ [SetValues (fst kv) vs])
           else st)
      | None \<Rightarrow> (fst st @ [(fst kv, vs)], snd st @ [CreateProperty (fst kv) vs]))"

definition write_metadata_log :: "props \<Rightarrow> pyval dict \<Rightarrow> props \<times> mutation list" where
  "write_metadata_log ps dict_to_store = foldl write_property (ps, []) (to_store dict_to_store)"

definition write_metadata :: "props \<Rightarrow> pyval dict \<Rightarrow> props" where
  "write_metadata ps dict_to_store = fst (write_metadata_log ps dict_to_store)"

section \<open>Writer\<close>

subsection \<open>Access to the entities of a block\<close>

definition map_data_array :: "string \<Rightarrow> (data_array \<Rightarrow> data_array) \<Rightarrow> nix_block \<Rightarrow> nix_block" where
  "map_data_array nm upd nb = nb\<lparr>data_arrays := AList.map_entry nm upd (data_arrays nb)\<rparr>"

definition map_tag :: "string \<Rightarrow> (tag \<Rightarrow> tag) \<Rightarrow> nix_block \<Rightarrow> nix_block" where
  "map_tag nm upd nb = nb\<lparr>tags := AList.map_entry nm upd (tags nb)\<rparr>"

fun find_source :: "(string \<times> source) list \<Rightarrow> source_id \<Rightarrow> source option" where
  "find_source srcs [] = None"
| "find_source srcs [n] = map_of srcs n"
| "find_source srcs (n # ns) =
     (case map_of srcs n of None \<Rightarrow> None | Some s \<Rightarrow> find_source (src_sources s) ns)"

fun map_source ::
  "source_id \<Rightarrow> (source \<Rightarrow> source) \<Rightarrow> (string \<times> source) list \<Rightarrow> (string \<times> source) list" where
  "map_source [] upd srcs = srcs"
| "map_source [n] upd srcs = AList.map_entry n upd srcs"
| "map_source (n # ns) upd srcs =
     AList.map_entry n
       (\<lambda>s. Source (src_type s) (src_metadata s) (map_source ns upd (src_sources s))) srcs"

definition tag_references :: "nix_block \<Rightarrow> string \<Rightarrow> string list" where
  "tag_references nb t = (case map_of (tags nb) t of None \<Rightarrow> [] | Some tg \<Rightarrow> references tg)"

definition array_sources :: "nix_block \<Rightarrow> string \<Rightarrow> source_id list" where
  "array_sources nb nm = (case map_of (data_arrays nb) nm of None \<Rightarrow> [] | Some a \<Rightarrow> da_sources a)"

text \<open>
  \<open>create_data_array\<close> followed by the write of the payload: the new array is the
  last of the block, without unit, dimensions, sources or metadata.
\<close>

definition create_data_array ::
  "nix_block \<Rightarrow> string \<Rightarrow> string \<Rightarrow> string \<Rightarrow> bytes list \<Rightarrow> nix_block" where
  "create_data_array nb nm ty dt payload =
     nb\<lparr>data_arrays := data_arrays nb @
        [(nm, \<lparr>da_type = ty, da_dtype = dt, da_data = payload, da_unit = None,
               dimensions = [], da_sources = [], da_metadata = None\<rparr>)]\<rparr>"

definition new_dimension :: "dimension_kind \<Rightarrow> dimension" where
  "new_dimension k =
     \<lparr>dim_kind = k, sampling_interval = 0, dim_unit = None, ticks = None, labels = []\<rparr>"

text \<open>
  \<open>if not nix_array.dimensions: nix_array.append_..._dimension(...)\<close> followed by an
  assignment to an attribute of \<open>nix_array.dimensions[0]\<close>.
\<close>

definition with_first_dimension ::
  "dimension \<Rightarrow> (dimension \<Rightarrow> dimension) \<Rightarrow> data_array \<Rightarrow> data_array" where
  "with_first_dimension new upd a =
     (case dimensions a of
        [] \<Rightarrow> a\<lparr>dimensions := [upd new]\<rparr>
      | d # ds \<Rightarrow> a\<lparr>dimensions := upd d # ds\<rparr>)"

text \<open>
  \<open>entity.metadata = get_or_create_section(nix_block.metadata, group_name, name)\<close>
  followed by \<open>write_metadata(entity.metadata, metadata)\<close>: what happens to the
  sections of the block.
\<close>

definition write_section :: "nix_block \<Rightarrow> string \<Rightarrow> string \<Rightarrow> pyval dict \<Rightarrow> nix_block" where
  "write_section nb group_name nm metadata =
     nb\<lparr>blk_metadata :=
          map_subsection (group_name @ ''s'')
            (map_subsection nm (map_section_props (\<lambda>ps. write_metadata ps metadata)))
            (get_or_create_section (blk_metadata nb) group_name nm)\<rparr>"

definition bind_err :: "error + 'a \<Rightarrow> ('a \<Rightarrow> error + 'b) \<Rightarrow> error + 'b" where
  "bind_err r k = (case r of Inl e \<Rightarrow> Inl e | Inr x \<Rightarrow> k x)"

subsection \<open>Writer.Help.clean\<close>

definition has_references :: "nix_block \<Rightarrow> string \<Rightarrow> bool" where
  "has_references nb nm = (filter (\<lambda>x. nm \<in> set (references (snd x))) (tags nb) \<noteq> [])"

definition clean :: "nix_block \<Rightarrow> nix_block" where
  "clean nb =
     nb\<lparr>data_arrays :=
           filter (\<lambda>x. has_references nb (fst x) \<or> da_sources (snd x) \<noteq> []) (data_arrays nb),
        sweeps := Suc (sweeps nb)\<rparr>"

subsection \<open>The data objects\<close>

text \<open>The metadata of an analog signal, with the special serialization of \<open>t_start\<close>.\<close>

definition analogsignal_metadata :: "analogsignal \<Rightarrow> pyval dict" where
  "analogsignal_metadata sig =
     AList.update ''t_start__unit'' (PVal (Atom (AStr (q_units (t_start sig)))))
       (AList.update ''t_start'' (PVal (Atom (AFloat (item (t_start sig)))))
          (extract_metadata (AnalogSignal sig)))"

definition write_analogsignal :: "(bytes \<Rightarrow> int) \<Rightarrow> nix_block \<Rightarrow> analogsignal \<Rightarrow> nix_block" where
  "write_analogsignal hash nb sig =
     (let obj_name = get_obj_nix_name hash (AnalogSignal sig);
          nb1 = (if map_of (data_arrays nb) obj_name = None
                 then create_data_array nb obj_name ''analogsignal'' (dtype (signal sig))
                        [tostring (signal sig)]
                 else nb);
          nb2 = map_data_array obj_name (\<lambda>a. a\<lparr>da_unit := Some (units sig)\<rparr>) nb1;
          nb3 = map_data_array obj_name
                  (with_first_dimension
                     ((new_dimension SampledDimension)
                        \<lparr>sampling_interval := item (sampling_rate sig)\<rparr>)
                     (\<lambda>d. d\<lparr>dim_unit := Some (q_units (sampling_rate sig))\<rparr>)) nb2;
          nb4 = map_data_array obj_name
                  (\<lambda>a. a\<lparr>da_metadata := Some (''analogsignals'', obj_name)\<rparr>) nb3
      in write_section nb4 ''analogsignal'' obj_name (analogsignal_metadata sig))"

definition write_irregularlysampledsignal ::
  "(bytes \<Rightarrow> int) \<Rightarrow> nix_block \<Rightarrow> irregularlysampledsignal \<Rightarrow> nix_block" where
  "write_irregularlysampledsignal hash nb sig =
     (let obj_name = get_obj_nix_name hash (IrregularlySampledSignal sig);
          nb1 = (if map_of (data_arrays nb) obj_name = None
                 then create_data_array nb obj_name ''irregularlysampledsignal''
                        (dtype (signal sig)) [tostring (signal sig)]
                 else nb);
          nb2 = map_data_array obj_name (\<lambda>a. a\<lparr>da_unit := Some (units sig)\<rparr>) nb1;
          nb3 = map_data_array obj_name
                  (with_first_dimension
                     ((new_dimension RangeDimension)\<lparr>ticks := Some (times sig)\<rparr>)
                     (\<lambda>d. d\<lparr>dim_unit := Some (times_units sig)\<rparr>)) nb2;
          metadata = extract_metadata (IrregularlySampledSignal sig);
          nb4 = map_data_array obj_name
                  (\<lambda>a. a\<lparr>da_metadata := Some (''irregularlysampledsignals'', obj_name)\<rparr>) nb3
      in write_section nb4 ''irregularlysampledsignal'' obj_name metadata)"

text \<open>
  The metadata of a spike train, with the serialization of \<open>t_start\<close>,
  \<open>t_stop\<close> and \<open>left_sweep\<close>. \<open>if st.left_sweep:\<close> holds for a quantity
  that is neither None nor zero.
\<close>

definition spiketrain_metadata :: "spiketrain \<Rightarrow> pyval dict" where
  "spiketrain_metadata st =
     (let metadata0 =
            AList.update ''t_stop__unit'' (PVal (Atom (AStr (q_units (t_stop st)))))
              (AList.update ''t_stop'' (PVal (Atom (AFloat (item (t_stop st)))))
                 (AList.update ''t_start__unit'' (PVal (Atom (AStr (q_units (st_t_start st)))))
                    (AList.update ''t_start'' (PVal (Atom (AFloat (item (st_t_start st)))))
                       (extract_metadata (SpikeTrain st)))))
      in case left_sweep st of
           None \<Rightarrow> metadata0
         | Some ls \<Rightarrow>
             if item ls \<noteq> 0
             then AList.update ''left_sweep__unit'' (PVal (Atom (AStr (q_units ls))))
                    (AList.update ''left_sweep'' (PVal (Atom (AFloat (item ls)))) metadata0)
             else metadata0)"

definition write_spiketrain :: "(bytes \<Rightarrow> int) \<Rightarrow> nix_block \<Rightarrow> spiketrain \<Rightarrow> nix_block" where
  "write_spiketrain hash nb st =
     (let obj_name = get_obj_nix_name hash (SpikeTrain st);
          nb1 = (if map_of (data_arrays nb) obj_name = None
                 then create_data_array nb obj_name ''spiketrain'' (dtype (signal st))
                        [tostring (signal st)]
                 else nb);
          nb2 = map_data_array obj_name (\<lambda>a. a\<lparr>da_unit := Some (units st)\<rparr>) nb1;
          nb3 = (case st_sampling_rate st of
                   None \<Rightarrow> nb2
                 | Some sr \<Rightarrow>
                     map_data_array obj_name
                       (with_first_dimension
                          ((new_dimension SampledDimension)\<lparr>sampling_interval := item sr\<rparr>)
                          (\<lambda>d. d\<lparr>dim_unit := Some (q_units sr)\<rparr>)) nb2);
          nb4 = map_data_array obj_name
                  (\<lambda>a. a\<lparr>da_metadata := Some (''spiketrains'', obj_name)\<rparr>) nb3
      in write_section nb4 ''spiketrain'' obj_name (spiketrain_metadata st))"

definition write_event :: "(bytes \<Rightarrow> int) \<Rightarrow> nix_block \<Rightarrow> event \<Rightarrow> nix_block" where
  "write_event hash nb ev =
     (let obj_name = get_obj_nix_name hash (Event ev);
          nb1 = (if map_of (data_arrays nb) obj_name = None
                 then create_data_array nb obj_name ''event'' (dtype (ev_times ev))
                        [tostring (ev_times ev)]
                 else nb);
          nb2 = map_data_array obj_name
                  (with_first_dimension (new_dimension SetDimension)
                     (\<lambda>d. d\<lparr>labels := ev_labels ev\<rparr>)) nb1;
          metadata = extract_metadata (Event ev);
          nb3 = map_data_array obj_name
                  (\<lambda>a. a\<lparr>da_metadata := Some (''events'', obj_name)\<rparr>) nb2
      in write_section nb3 ''event'' obj_name metadata)"

definition write_epoch :: "(bytes \<Rightarrow> int) \<Rightarrow> nix_block \<Rightarrow> epoch \<Rightarrow> nix_block" where
  "write_epoch hash nb ep =
     (let obj_name = get_obj_nix_name hash (Epoch ep);
          nb1 = (if map_of (data_arrays nb) obj_name = None
                 then create_data_array nb obj_name ''epoch'' (dtype (ep_times ep))
                        [tostring (ep_times ep), tostring (durations ep)]
                 else nb);
          nb2 = map_data_array obj_name
                  (with_first_dimension (new_dimension SetDimension)
                     (\<lambda>d. d\<lparr>labels := ep_labels ep\<rparr>)) nb1;
          metadata = extract_metadata (Epoch ep);
          nb3 = map_data_array obj_name
                  (\<lambda>a. a\<lparr>da_metadata := Some (''epochs'', obj_name)\<rparr>) nb2
      in write_section nb3 ''epoch'' obj_name metadata)"

subsection \<open>Writer.Help.write_many\<close>

text \<open>
  The parent handed to \<open>write_many\<close>: the block itself, a tag (\<open>nix.Tag\<close>) by its
  name, or a source (\<open>nix.Source\<close>) by its path.
\<close>

datatype parent = PBlock | PTag string | PSource source_id

definition parent_sources :: "nix_block \<Rightarrow> parent \<Rightarrow> (string \<times> source) list" where
  "parent_sources nb par =
     (case par of
        PBlock \<Rightarrow> sources nb
      | PTag t \<Rightarrow> []
      | PSource p \<Rightarrow> (case find_source (sources nb) p of None \<Rightarrow> [] | Some s \<Rightarrow> src_sources s))"

text \<open>
  The container \<open>nix_objs\<close> chosen by the type of the objects, as the names and
  types of its entities in the order of the container.
\<close>

definition nix_objs :: "nix_block \<Rightarrow> parent \<Rightarrow> obj_type \<Rightarrow> (string \<times> string) list" where
  "nix_objs nb par ot =
     (if ot = OSegment then map (\<lambda>x. (fst x, tag_type (snd x))) (tags nb)
      else if ot = ORecordingChannelGroup then map (\<lambda>x. (fst x, src_type (snd x))) (sources nb)
      else if ot = OUnit then map (\<lambda>x. (fst x, src_type (snd x))) (parent_sources nb par)
      else map (\<lambda>x. (fst x, da_type (snd x))) (data_arrays nb))"

definition is_array_type :: "obj_type \<Rightarrow> bool" where
  "is_array_type ot = (ot \<noteq> OSegment \<and> ot \<noteq> ORecordingChannelGroup \<and> ot \<noteq> OUnit)"

text \<open>The names of the entities of the type that are linked to the parent.\<close>

definition existing_names :: "nix_block \<Rightarrow> parent \<Rightarrow> obj_type \<Rightarrow> string list" where
  "existing_names nb par ot =
     (let existing = map fst (filter (\<lambda>x. snd x = type_name ot) (nix_objs nb par ot)) in
      case par of
        PSource p \<Rightarrow>
          if ot \<noteq> OUnit then filter (\<lambda>n. p \<in> set (array_sources nb n)) existing
          else existing
      | PTag t \<Rightarrow> filter (\<lambda>n. n \<in> set (tag_references nb t)) existing
      | PBlock \<Rightarrow> existing)"

fun write_all :: "(nix_block \<Rightarrow> 'a \<Rightarrow> error + nix_block) \<Rightarrow> nix_block \<Rightarrow> 'a list \<Rightarrow> error + nix_block" where
  "write_all write_func nb [] = Inr nb"
| "write_all write_func nb (ob # obs) =
     (case write_func nb ob of Inl e \<Rightarrow> Inl e | Inr nb' \<Rightarrow> write_all write_func nb' obs)"

text \<open>A list of links holds an entity once: appending one that is linked changes nothing.\<close>

definition append_link :: "'a list \<Rightarrow> 'a \<Rightarrow> 'a list" where
  "append_link xs x = (if x \<in> set xs then xs else xs @ [x])"

text \<open>\<open>update_references\<close>.\<close>

fun del_references :: "string \<Rightarrow> string list \<Rightarrow> nix_block \<Rightarrow> error + nix_block" where
  "del_references t [] nb = Inr nb"
| "del_references t (n # ns) nb =
     (if n \<in> set (tag_references nb t)
      then del_references t ns (map_tag t (\<lambda>tg. tg\<lparr>references := removeAll n (references tg)\<rparr>) nb)
      else Inl (KeyError n))"

fun append_references :: "string \<Rightarrow> string list \<Rightarrow> nix_block \<Rightarrow> error + nix_block" where
  "append_references t [] nb = Inr nb"
| "append_references t (n # ns) nb =
     (if map_of (data_arrays nb) n = None then Inl (KeyError n)
      else append_references t ns
             (map_tag t (\<lambda>tg. tg\<lparr>references := append_link (references tg) n\<rparr>) nb))"

definition update_references ::
  "string \<Rightarrow> string list \<Rightarrow> string list \<Rightarrow> nix_block \<Rightarrow> error + nix_block" where
  "update_references t to_remove to_append nb =
     bind_err (del_references t to_remove nb) (append_references t to_append)"

text \<open>
  \<open>update_sources\<close>. \<open>del array.sources[parent.name]\<close> removes the link to the
  source of that name.
\<close>

fun del_sources :: "source_id \<Rightarrow> string list \<Rightarrow> nix_block \<Rightarrow> error + nix_block" where
  "del_sources p [] nb = Inr nb"
| "del_sources p (n # ns) nb =
     (if map_of (data_arrays nb) n = None then Inl (KeyError n)
      else if last p \<notin> last ` set (array_sources nb n) then Inl (KeyError (last p))
      else del_sources p ns
             (map_data_array n
                (\<lambda>a. a\<lparr>da_sources := filter (\<lambda>s. last s \<noteq> last p) (da_sources a)\<rparr>) nb))"

fun append_sources :: "source_id \<Rightarrow> string list \<Rightarrow> nix_block \<Rightarrow> error + nix_block" where
  "append_sources p [] nb = Inr nb"
| "append_sources p (n # ns) nb =
     (if map_of (data_arrays nb) n = None then Inl (KeyError n)
      else append_sources p ns
             (map_data_array n (\<lambda>a. a\<lparr>da_sources := append_link (da_sources a) p\<rparr>) nb))"

definition update_sources ::
  "source_id \<Rightarrow> string list \<Rightarrow> string list \<Rightarrow> nix_block \<Rightarrow> error + nix_block" where
  "update_sources p to_remove to_append nb =
     bind_err (del_sources p to_remove nb) (append_sources p to_append)"

text \<open>\<open>del nix_objs[name]\<close> in the container chosen by the type.\<close>

definition del_obj :: "obj_type \<Rightarrow> parent \<Rightarrow> string \<Rightarrow> nix_block \<Rightarrow> error + nix_block" where
  "del_obj ot par n nb =
     (if n \<notin> fst ` set (nix_objs nb par ot) then Inl (KeyError n)
      else if ot = OSegment then Inr (nb\<lparr>tags := AList.delete n (tags nb)\<rparr>)
      else if ot = ORecordingChannelGroup then Inr (nb\<lparr>sources := AList.delete n (sources nb)\<rparr>)
      else if ot = OUnit then
        (case par of
           PSource p \<Rightarrow>
             Inr (nb\<lparr>sources :=
                    map_source p (\<lambda>s. Source (src_type s) (src_metadata s)
                                         (AList.delete n (src_sources s))) (sources nb)\<rparr>)
         | _ \<Rightarrow> Inr (nb\<lparr>sources := AList.delete n (sources nb)\<rparr>))
      else Inr (nb\<lparr>data_arrays := AList.delete n (data_arrays nb)\<rparr>))"

fun del_objs :: "obj_type \<Rightarrow> parent \<Rightarrow> string list \<Rightarrow> nix_block \<Rightarrow> error + nix_block" where
  "del_objs ot par [] nb = Inr nb"
| "del_objs ot par (n # ns) nb =
     (case del_obj ot par n nb of Inl e \<Rightarrow> Inl e | Inr nb' \<Rightarrow> del_objs ot par ns nb')"

text \<open>
  Whether the parent is one that \<open>write_many\<close> links the objects to, by its
  references (a tag) or as one of their sources (a source, for all but units).
\<close>

definition links_objects :: "parent \<Rightarrow> obj_type \<Rightarrow> bool" where
  "links_objects par ot =
     (case par of PSource p \<Rightarrow> ot \<noteq> OUnit | PTag t \<Rightarrow> True | PBlock \<Rightarrow> False)"

text \<open>
  \<open>write_many\<close>. The class of the first object gives \<open>obj_type\<close>, the function
  \<open>write_\<close>\<open>obj_type\<close> and, with it, \<open>conv\<close> on the objects of the list; all
  three are arguments here, since a child collection holds objects of one class. The
  sets \<open>to_remove\<close> and \<open>to_append\<close> are enumerated in the order of first
  occurrence. Only data arrays can be linked: with a linking parent and objects that are
  not stored as data arrays, the link raises.
\<close>

definition to_remove :: "string list \<Rightarrow> string list \<Rightarrow> string list" where
  "to_remove existing desired = filter (\<lambda>n. n \<notin> set desired) (remdups existing)"

definition to_append :: "string list \<Rightarrow> string list \<Rightarrow> string list" where
  "to_append existing desired = filter (\<lambda>n. n \<notin> set existing) (remdups desired)"

definition write_many ::
  "obj_type \<Rightarrow> ('a \<Rightarrow> string) \<Rightarrow> (nix_block \<Rightarrow> 'a \<Rightarrow> error + nix_block) \<Rightarrow>
     nix_block \<Rightarrow> parent \<Rightarrow> 'a list \<Rightarrow> error + nix_block" where
  "write_many ot conv write_func nb par neo_objs =
     (if neo_objs = [] then Inr nb
      else if links_objects par ot \<and> \<not> is_array_type ot then Inl TypeError
      else
        (let existing = existing_names nb par ot;
             rem = to_remove existing (map conv neo_objs);
             app = to_append existing (map conv neo_objs)
         in bind_err (write_all write_func nb neo_objs)
              (\<lambda>nb1. case par of
                        PSource p \<Rightarrow>
                          if ot \<noteq> OUnit then update_sources p rem app nb1
                          else del_objs ot par rem nb1
                      | PTag t \<Rightarrow> update_references t rem app nb1
                      | PBlock \<Rightarrow> del_objs ot par rem nb1)))"

subsection \<open>The container objects\<close>

definition leaf_writer ::
  "(nix_block \<Rightarrow> 'a \<Rightarrow> nix_block) \<Rightarrow> nix_block \<Rightarrow> 'a \<Rightarrow> error + nix_block" where
  "leaf_writer w nb ob = Inr (w nb ob)"


definition write_unit ::
  "(bytes \<Rightarrow> int) \<Rightarrow> nix_block \<Rightarrow> string \<Rightarrow> neo_unit \<Rightarrow> bool \<Rightarrow> error + nix_block" where
  "write_unit hash nb source_id un recursive =
     (case map_of (sources nb) source_id of
        None \<Rightarrow> Inl (KeyError source_id)
      | Some nix_rcg_source \<Rightarrow>
         (let nb1 = (if map_of (src_sources nix_rcg_source) (name un) = None
                     then nb\<lparr>sources := map_source [source_id]
                            (\<lambda>s. Source (src_type s) (src_metadata s)
                                   (src_sources s @ [(name un, Source ''unit'' None [])]))
                            (sources nb)\<rparr>
                     else nb);
              nb2 = nb1\<lparr>sources := map_source [source_id, name un]
                            (\<lambda>s. Source (src_type s) (Some (''units'', name un)) (src_sources s))
                            (sources nb1)\<rparr>;
              nb3 = write_section nb2 ''unit'' (name un) (extract_metadata (Unit un))
          in bind_err
               (if recursive then
                  write_many OSpikeTrain (\<lambda>x. get_obj_nix_name hash (SpikeTrain x))
                    (leaf_writer (write_spiketrain hash)) nb3 (PSource [source_id, name un])
                    (unit_spiketrains un)
                else Inr nb3)
               (\<lambda>nb4. Inr (clean nb4))))"

definition write_recordingchannelgroup ::
  "(bytes \<Rightarrow> int) \<Rightarrow> nix_block \<Rightarrow> recordingchannelgroup \<Rightarrow> bool \<Rightarrow> error + nix_block" where
  "write_recordingchannelgroup hash nb rcg recursive =
     (let nb1 = (if map_of (sources nb) (name rcg) = None
                 then nb\<lparr>sources := sources nb @
                        [(name rcg, Source ''recordingchannelgroup'' None [])]\<rparr>
                 else nb);
          nb2 = nb1\<lparr>sources := map_source [name rcg]
                        (\<lambda>s. Source (src_type s) (Some (''recordingchannelgroups'', name rcg))
                               (src_sources s))
                        (sources nb1)\<rparr>;
          nb3 = write_section nb2 ''recordingchannelgroup'' (name rcg)
                  (extract_metadata (RecordingChannelGroup rcg));
          par = PSource [name rcg]
      in bind_err
           (if recursive then
              bind_err (write_many OUnit name (\<lambda>b u. write_unit hash b (name rcg) u True)
                          nb3 par (rcg_units rcg))
             (\<lambda>nb4. bind_err (write_many OAnalogSignal (\<lambda>x. get_obj_nix_name hash (AnalogSignal x))
                          (leaf_writer (write_analogsignal hash)) nb4 par (rcg_analogsignals rcg))
             (\<lambda>nb5. write_many OIrregularlySampledSignal
                          (\<lambda>x. get_obj_nix_name hash (IrregularlySampledSignal x))
                          (leaf_writer (write_irregularlysampledsignal hash)) nb5 par
                          (rcg_irregularlysampledsignals rcg)))
            else Inr nb3)
           (\<lambda>nb6. Inr (clean nb6)))"

text \<open>
  A block is created with its metadata section, which
  \<open>get_or_create_section(nix_file, 'block', block.name)\<close> finds or creates among the
  sections of the file under the name of the block.
\<close>

definition new_block :: nix_block where
  "new_block = \<lparr>blk_metadata = Section ''block'' [] [], tags = [], sources = [],
                data_arrays = [], sweeps = 0\<rparr>"



section \<open>Reader.Help\<close>

text \<open>
  \<open>nix_section[key]\<close>: the values of the property, a single value unwrapped;
  \<open>KeyError\<close> when the section has no property of that name.
\<close>

definition section_getitem :: "props \<Rightarrow> string \<Rightarrow> error + val" where
  "section_getitem ps key =
     (case map_of ps key of
        None \<Rightarrow> Inl (KeyError key)
      | Some vs \<Rightarrow> (case vs of [a] \<Rightarrow> Inr (Atom a) | _ \<Rightarrow> Inr (List vs)))"

definition section_contains :: "props \<Rightarrow> string \<Rightarrow> bool" where
  "section_contains ps key = (map_of ps key \<noteq> None)"

definition read_attributes :: "props \<Rightarrow> obj_type \<Rightarrow> val dict" where
  "read_attributes nix_sec ot =
     foldl (\<lambda>result attr_name.
              case section_getitem nix_sec attr_name of
                Inr v \<Rightarrow> AList.update attr_name v result
              | Inl _ \<Rightarrow> result)
       [] (simple_attrs_default @ simple_attrs ot)"

definition read_annotations :: "props \<Rightarrow> obj_type \<Rightarrow> val dict" where
  "read_annotations nix_sec ot =
     foldl (\<lambda>result key.
              case section_getitem nix_sec key of
                Inr v \<Rightarrow>
                  (if key \<notin> set (simple_attrs_default @ simple_attrs ot)
                   then AList.update key v result else result)
              | Inl _ \<Rightarrow> result)
       [] (map fst nix_sec)"

text \<open>
  What the program takes from Python and from the units package (\<open>quantities\<close>,
  imported as \<open>pq\<close>), as parameters; the program relies on no property of them.
  \<open>str_float\<close> is \<open>float\<close> on a string: the number that the string spells,
  None where \<open>float\<close> raises \<open>ValueError\<close>. \<open>pq_unit\<close> is the
  lookup of a unit by a string, as in \<open>Quantity(x, string)\<close> and in the units of a
  signal, and \<open>pq_attr\<close> the unit that the module defines under a name,
  \<open>getattr(pq, name)\<close>: both give the unit by its dimensionality string, and None where
  the first raises \<open>LookupError\<close> and the second \<open>AttributeError\<close>.
\<close>

record environment =
  str_float :: "string \<Rightarrow> real option"
  pq_unit :: "string \<Rightarrow> string option"
  pq_attr :: "string \<Rightarrow> string option"

text \<open>\<open>float(value)\<close>: a number converts, a string is parsed, a list does not convert.\<close>

definition py_float :: "environment \<Rightarrow> val \<Rightarrow> error + real" where
  "py_float env v =
     (case v of
        Atom (AFloat x) \<Rightarrow> Inr x
      | Atom (AInt i) \<Rightarrow> Inr (of_int i)
      | Atom (ABool b) \<Rightarrow> Inr (if b then 1 else 0)
      | Atom (AStr s) \<Rightarrow> (case str_float env s of None \<Rightarrow> Inl ValueError | Some x \<Rightarrow> Inr x)
      | _ \<Rightarrow> Inl TypeError)"

text \<open>
  \<open>Quantity(x, unit)\<close> with the unit as it comes out of the section: a string is
  looked up; anything else is not a unit.
\<close>

definition py_quantity :: "environment \<Rightarrow> real \<Rightarrow> val \<Rightarrow> error + quantity" where
  "py_quantity env x u =
     (case u of
        Atom (AStr us) \<Rightarrow>
          (case pq_unit env us of
             None \<Rightarrow> Inl LookupError
           | Some un \<Rightarrow> Inr \<lparr>item = x, q_units = un\<rparr>)
      | _ \<Rightarrow> Inl TypeError)"

definition read_quantity :: "environment \<Rightarrow> props \<Rightarrow> string \<Rightarrow> error + quantity" where
  "read_quantity env nix_sec qname =
     (case section_getitem nix_sec qname of
        Inl e \<Rightarrow> Inl e
      | Inr v \<Rightarrow>
          (case section_getitem nix_sec (qname @ ''__unit'') of
             Inl e \<Rightarrow> Inl e
           | Inr u \<Rightarrow>
               (case py_float env v of
                  Inl e \<Rightarrow> Inl e
                | Inr x \<Rightarrow> py_quantity env x u)))"

section \<open>Reader\<close>

text \<open>The properties of the section that a metadata link leads to.\<close>

definition stored_props :: "nix_block \<Rightarrow> link \<Rightarrow> props" where
  "stored_props nb l =
     (case section_at (blk_metadata nb) l of None \<Rightarrow> [] | Some s \<Rightarrow> sec_props s)"

text \<open>\<open>s.lower()\<close> and \<open>sub in s\<close> on strings.\<close>

definition lower_char :: "char \<Rightarrow> char" where
  "lower_char c =
     (case map_of (zip ''ABCDEFGHIJKLMNOPQRSTUVWXYZ'' ''abcdefghijklmnopqrstuvwxyz'') c of
        None \<Rightarrow> c
      | Some l \<Rightarrow> l)"

definition lower :: "string \<Rightarrow> string" where
  "lower s = map lower_char s"

fun contains :: "string \<Rightarrow> string \<Rightarrow> bool" where
  "contains sub [] = (sub = [])"
| "contains sub (c # cs) = (take (length sub) (c # cs) = sub \<or> contains sub cs)"

text \<open>
  \<open>get_obj_neo_name\<close> of a data array: for four of the five types of data objects the
  name stored in the metadata, None when there is none; otherwise the name of the array.
  Without a metadata section the subscription is one of None.
\<close>

definition get_obj_neo_name :: "nix_block \<Rightarrow> string \<Rightarrow> data_array \<Rightarrow> error + pyval" where
  "get_obj_neo_name nb array_id nix_da =
     (if da_type nix_da \<in> set [''analogsignal'', ''spiketrain'', ''event'', ''epoch'']
      then (case da_metadata nix_da of
              None \<Rightarrow> Inl TypeError
            | Some l \<Rightarrow>
                (case section_getitem (stored_props nb l) ''name'' of
                   Inl e \<Rightarrow> Inr PNone
                 | Inr v \<Rightarrow> Inr (PVal v)))
      else Inr (PVal (Atom (AStr array_id))))"

text \<open>
  The classes of the object model are not part of the program. What a read function
  produces is given by what it does to make the object: the class, the arguments
  \<open>params\<close> it hands to the constructor, the attributes it assigns afterwards, and
  the annotations it assigns. What the constructor makes of its arguments, and whether it
  takes them, is the object model's. The child collections, which the read functions of
  the containers assign as proxies that read on first access (\<open>ProxyList\<close>), are not
  in the record.
\<close>

datatype arg =
    ArgValue pyval
  | ArgData "bytes list"
  | ArgRow bytes
  | ArgDtype string
  | ArgUnit "string option"
  | ArgTicks "ndarray option"
  | ArgLabels "string list"
  | ArgQuantity quantity

record neo_read =
  r_class :: obj_type
  r_args :: "arg dict"
  r_attrs :: "arg dict"
  r_annotations :: "val dict"

text \<open>
  The last statements of every read function: \<open>setattr(obj, key, value)\<close> for the
  entries of \<open>read_attributes\<close>, after the attributes assigned before (none of the
  names of \<open>simple_attrs\<close>), and the assignment of \<open>read_annotations\<close>.
\<close>

definition finish_read :: "obj_type \<Rightarrow> arg dict \<Rightarrow> arg dict \<Rightarrow> props \<Rightarrow> neo_read" where
  "finish_read ot params assigned nix_sec =
     \<lparr>r_class = ot,
      r_args = params,
      r_attrs = assigned @ map (\<lambda>kv. (fst kv, ArgValue (PVal (snd kv)))) (read_attributes nix_sec ot),
      r_annotations = read_annotations nix_sec ot\<rparr>"

text \<open>The lookups by name in the file and in a block, and the first dimension of an array.\<close>

definition get_block :: "nix_file \<Rightarrow> string \<Rightarrow> error + nix_block" where
  "get_block nix_file block_id =
     (case map_of nix_file block_id of None \<Rightarrow> Inl (KeyError block_id) | Some b \<Rightarrow> Inr b)"

definition get_data_array :: "nix_block \<Rightarrow> string \<Rightarrow> error + data_array" where
  "get_data_array nb array_id =
     (case map_of (data_arrays nb) array_id of None \<Rightarrow> Inl (KeyError array_id) | Some a \<Rightarrow> Inr a)"

definition first_dimension :: "data_array \<Rightarrow> error + dimension" where
  "first_dimension nix_da = (case dimensions nix_da of [] \<Rightarrow> Inl IndexError | d # _ \<Rightarrow> Inr d)"

text \<open>
  The metadata of an entity where a section is needed: None is no section, and its
  subscription, membership test and iteration are a \<open>TypeError\<close>.
\<close>

definition metadata_props :: "nix_block \<Rightarrow> link option \<Rightarrow> error + props" where
  "metadata_props nb m = (case m of None \<Rightarrow> Inl TypeError | Some l \<Rightarrow> Inr (stored_props nb l))"

text \<open>
  \<open>s_dim.sampling_interval * getattr(pq, s_dim.unit)\<close>: only a sampled dimension has
  an interval.
\<close>

definition sampling :: "environment \<Rightarrow> dimension \<Rightarrow> error + quantity" where
  "sampling env s_dim =
     (if dim_kind s_dim \<noteq> SampledDimension then Inl AttributeError
      else case dim_unit s_dim of
             None \<Rightarrow> Inl TypeError
           | Some u \<Rightarrow>
               (case pq_attr env u of
                  None \<Rightarrow> Inl AttributeError
                | Some un \<Rightarrow> Inr \<lparr>item = sampling_interval s_dim, q_units = un\<rparr>))"

text \<open>\<open>if name:\<close> and \<open>if nix_da.unit:\<close>, the truth value of a value and of a string.\<close>

fun truthy :: "pyval \<Rightarrow> bool" where
  "truthy PNone = False"
| "truthy (PVal (Atom (ABool b))) = b"
| "truthy (PVal (Atom (AInt i))) = (i \<noteq> 0)"
| "truthy (PVal (Atom (AFloat x))) = (x \<noteq> 0)"
| "truthy (PVal (Atom (AStr s))) = (s \<noteq> [])"
| "truthy (PVal (List xs)) = (xs \<noteq> [])"
| "truthy (PVal (Tuple xs)) = (xs \<noteq> [])"

subsection \<open>The containers\<close>

definition read_block :: "nix_file \<Rightarrow> string \<Rightarrow> error + neo_read" where
  "read_block nix_file block_id =
     bind_err (get_block nix_file block_id)
       (\<lambda>nix_block.
          Inr (finish_read OBlock [(''name'', ArgValue (PVal (Atom (AStr block_id))))] []
                 (sec_props (blk_metadata nix_block))))"

definition read_segment :: "nix_file \<Rightarrow> string \<Rightarrow> string \<Rightarrow> error + neo_read" where
  "read_segment nix_file block_id seg_id =
     bind_err (get_block nix_file block_id)
       (\<lambda>nix_block.
          case map_of (tags nix_block) seg_id of
            None \<Rightarrow> Inl (KeyError seg_id)
          | Some nix_tag \<Rightarrow>
              bind_err (metadata_props nix_block (tag_metadata nix_tag))
                (\<lambda>ps. Inr (finish_read OSegment
                              [(''name'', ArgValue (PVal (Atom (AStr seg_id))))] [] ps)))"

definition read_RCG :: "nix_file \<Rightarrow> string \<Rightarrow> string \<Rightarrow> error + neo_read" where
  "read_RCG nix_file block_id rcg_id =
     bind_err (get_block nix_file block_id)
       (\<lambda>nix_block.
          case map_of (sources nix_block) rcg_id of
            None \<Rightarrow> Inl (KeyError rcg_id)
          | Some nix_source \<Rightarrow>
              bind_err (metadata_props nix_block (src_metadata nix_source))
                (\<lambda>ps. bind_err (section_getitem ps ''channel_indexes'')
                (\<lambda>ci. Inr (finish_read ORecordingChannelGroup
                              [(''name'', ArgValue (PVal (Atom (AStr rcg_id)))),
                               (''channel_indexes'', ArgValue (PVal ci))] [] ps))))"

definition read_unit :: "nix_file \<Rightarrow> string \<Rightarrow> string \<Rightarrow> string \<Rightarrow> error + neo_read" where
  "read_unit nix_file block_id rcg_source_id unit_id =
     bind_err (get_block nix_file block_id)
       (\<lambda>nix_block.
          case map_of (sources nix_block) rcg_source_id of
            None \<Rightarrow> Inl (KeyError rcg_source_id)
          | Some nix_rcg_source \<Rightarrow>
              (case map_of (src_sources nix_rcg_source) unit_id of
                 None \<Rightarrow> Inl (KeyError unit_id)
               | Some nix_source \<Rightarrow>
                   bind_err (metadata_props nix_block (src_metadata nix_source))
                     (\<lambda>ps. Inr (finish_read OUnit
                                   [(''name'', ArgValue (PVal (Atom (AStr unit_id))))] [] ps))))"

subsection \<open>The data objects\<close>

text \<open>
  \<open>read_analogsignal\<close>. The interval of the first dimension is the sampling rate when
  the unit of the dimension contains \<open>hz\<close>, and the sampling period otherwise.
\<close>

definition read_analogsignal ::
  "environment \<Rightarrow> nix_file \<Rightarrow> string \<Rightarrow> string \<Rightarrow> error + neo_read" where
  "read_analogsignal env nix_file block_id array_id =
     bind_err (get_block nix_file block_id)
       (\<lambda>nix_block. bind_err (get_data_array nix_block array_id)
       (\<lambda>nix_da. bind_err (get_obj_neo_name nix_block array_id nix_da)
       (\<lambda>nm. bind_err (first_dimension nix_da)
       (\<lambda>s_dim. bind_err (sampling env s_dim)
       (\<lambda>rate.
          let params = [(''name'', ArgValue nm),
                        (''signal'', ArgData (da_data nix_da)),
                        (''units'', ArgUnit (da_unit nix_da)),
                        (''dtype'', ArgDtype (da_dtype nix_da)),
                        (if contains ''hz'' (lower (the (dim_unit s_dim)))
                         then ''sampling_rate'' else ''sampling_period'', ArgQuantity rate)]
          in bind_err (metadata_props nix_block (da_metadata nix_da))
               (\<lambda>ps. bind_err (read_quantity env ps ''t_start'')
               (\<lambda>ts. Inr (finish_read OAnalogSignal params
                             [(''t_start'', ArgQuantity ts)] ps))))))))"

definition read_irregularlysampledsignal ::
  "nix_file \<Rightarrow> string \<Rightarrow> string \<Rightarrow> error + neo_read" where
  "read_irregularlysampledsignal nix_file block_id array_id =
     bind_err (get_block nix_file block_id)
       (\<lambda>nix_block. bind_err (get_data_array nix_block array_id)
       (\<lambda>nix_da. bind_err (get_obj_neo_name nix_block array_id nix_da)
       (\<lambda>nm. bind_err (first_dimension nix_da)
       (\<lambda>t_dim.
          if dim_kind t_dim \<noteq> RangeDimension then Inl AttributeError
          else
            let params = [(''name'', ArgValue nm),
                          (''signal'', ArgData (da_data nix_da)),
                          (''units'', ArgUnit (da_unit nix_da)),
                          (''times'', ArgTicks (ticks t_dim)),
                          (''time_units'', ArgUnit (dim_unit t_dim)),
                          (''dtype'', ArgDtype (da_dtype nix_da))]
            in bind_err (metadata_props nix_block (da_metadata nix_da))
                 (\<lambda>ps. Inr (finish_read OIrregularlySampledSignal params [] ps))))))"

definition read_spiketrain ::
  "environment \<Rightarrow> nix_file \<Rightarrow> string \<Rightarrow> string \<Rightarrow> error + neo_read" where
  "read_spiketrain env nix_file block_id array_id =
     bind_err (get_block nix_file block_id)
       (\<lambda>nix_block. bind_err (get_data_array nix_block array_id)
       (\<lambda>nix_da. bind_err (metadata_props nix_block (da_metadata nix_da))
       (\<lambda>ps. bind_err (read_quantity env ps ''t_start'')
       (\<lambda>ts. bind_err (read_quantity env ps ''t_stop'')
       (\<lambda>te. bind_err (get_obj_neo_name nix_block array_id nix_da)
       (\<lambda>nm. bind_err (if section_contains ps ''left_sweep''
                        then bind_err (read_quantity env ps ''left_sweep'')
                               (\<lambda>ls. Inr [(''left_sweep'', ArgQuantity ls)])
                        else Inr [])
       (\<lambda>sweep. bind_err (case dimensions nix_da of
                             [] \<Rightarrow> Inr []
                           | s_dim # _ \<Rightarrow>
                               bind_err (sampling env s_dim)
                                 (\<lambda>rate. Inr [(''sampling_rate'', ArgQuantity rate)]))
       (\<lambda>rate.
          let params = [(''times'', ArgData (da_data nix_da)),
                        (''dtype'', ArgDtype (da_dtype nix_da)),
                        (''t_start'', ArgQuantity ts),
                        (''t_stop'', ArgQuantity te)]
                       @ (if truthy nm then [(''name'', ArgValue nm)] else [])
                       @ sweep @ rate
                       @ (case da_unit nix_da of
                            None \<Rightarrow> []
                          | Some u \<Rightarrow> if u \<noteq> [] then [(''units'', ArgUnit (Some u))] else [])
          in Inr (finish_read OSpikeTrain params [] ps)))))))))"

text \<open>
  The labels are those of a set dimension; \<open>encode('UTF-8')\<close> leaves the bytes of a
  label as they are.
\<close>

definition dimension_labels :: "data_array \<Rightarrow> error + string list" where
  "dimension_labels nix_da =
     bind_err (first_dimension nix_da)
       (\<lambda>d. if dim_kind d \<noteq> SetDimension then Inl AttributeError else Inr (labels d))"

definition read_event :: "nix_file \<Rightarrow> string \<Rightarrow> string \<Rightarrow> error + neo_read" where
  "read_event nix_file block_id array_id =
     bind_err (get_block nix_file block_id)
       (\<lambda>nix_block. bind_err (get_data_array nix_block array_id)
       (\<lambda>nix_da. bind_err (dimension_labels nix_da)
       (\<lambda>ls. bind_err (get_obj_neo_name nix_block array_id nix_da)
       (\<lambda>nm.
          let params = [(''times'', ArgData (da_data nix_da)), (''labels'', ArgLabels ls)]
                       @ (if truthy nm then [(''name'', ArgValue nm)] else [])
          in bind_err (metadata_props nix_block (da_metadata nix_da))
               (\<lambda>ps. Inr (finish_read OEvent params [] ps))))))"

text \<open>\<open>nix_da[0]\<close> and \<open>nix_da[1]\<close>: the rows of the data.\<close>

definition data_row :: "data_array \<Rightarrow> nat \<Rightarrow> error + bytes" where
  "data_row nix_da i = (if i < length (da_data nix_da) then Inr (da_data nix_da ! i) else Inl IndexError)"

definition read_epoch :: "nix_file \<Rightarrow> string \<Rightarrow> string \<Rightarrow> error + neo_read" where
  "read_epoch nix_file block_id array_id =
     bind_err (get_block nix_file block_id)
       (\<lambda>nix_block. bind_err (get_data_array nix_block array_id)
       (\<lambda>nix_da. bind_err (data_row nix_da 0)
       (\<lambda>ts. bind_err (data_row nix_da 1)
       (\<lambda>ds. bind_err (dimension_labels nix_da)
       (\<lambda>ls. bind_err (get_obj_neo_name nix_block array_id nix_da)
       (\<lambda>nm.
          let params = [(''times'', ArgRow ts), (''durations'', ArgRow ds),
                        (''labels'', ArgLabels ls)]
                       @ (if truthy nm then [(''name'', ArgValue nm)] else [])
          in bind_err (metadata_props nix_block (da_metadata nix_da))
               (\<lambda>ps. Inr (finish_read OEpoch params [] ps))))))))"

text \<open>
  \<open>read_func = getattr(Reader, 'read_' + obj_type)\<close> for the types of the data objects,
  as \<open>read_multiple\<close> calls it.
\<close>

definition read_data_object ::
  "environment \<Rightarrow> obj_type \<Rightarrow> nix_file \<Rightarrow> string \<Rightarrow> string \<Rightarrow> error + neo_read" where
  "read_data_object env ot nix_file block_id array_id =
     (case ot of
        OAnalogSignal \<Rightarrow> read_analogsignal env nix_file block_id array_id
      | OIrregularlySampledSignal \<Rightarrow> read_irregularlysampledsignal nix_file block_id array_id
      | OSpikeTrain \<Rightarrow> read_spiketrain env nix_file block_id array_id
      | OEvent \<Rightarrow> read_event nix_file block_id array_id
      | OEpoch \<Rightarrow> read_epoch nix_file block_id array_id
      | _ \<Rightarrow> Inl AttributeError)"



section \<open>Notions used in the statements\<close>

text \<open>The names of the data arrays and of the tags of a block, in order.\<close>

definition array_names :: "nix_block \<Rightarrow> string list" where
  "array_names nb = map fst (data_arrays nb)"

definition tag_names :: "nix_block \<Rightarrow> string list" where
  "tag_names nb = map fst (tags nb)"

text \<open>
  What the five writers of data objects have in common: such a writer leaves the tags,
  the sources and the source links of every data array as they are, and the block has
  afterwards the data arrays it had and the one named after the object.
\<close>

definition array_writer :: "('a \<Rightarrow> string) \<Rightarrow> (nix_block \<Rightarrow> 'a \<Rightarrow> nix_block) \<Rightarrow> bool" where
  "array_writer conv w \<longleftrightarrow>
     (\<forall>b ob. tags (w b ob) = tags b \<and> sources (w b ob) = sources b \<and> sweeps (w b ob) = sweeps b
        \<and> (\<forall>n. array_sources (w b ob) n = array_sources b n)
        \<and> set (array_names (w b ob)) = insert (conv ob) (set (array_names b)))"

text \<open>
  The children linked to a parent, for the type of a collection: the data arrays a tag
  references, the data arrays that have a source among their sources, and, for a parent
  that contains its children (segments and channel groups of a block, units of a channel
  group), the entities of the container.
\<close>

definition linked :: "nix_block \<Rightarrow> parent \<Rightarrow> obj_type \<Rightarrow> string list" where
  "linked nb par ot =
     (case par of
        PTag t \<Rightarrow> tag_references nb t
      | PSource p \<Rightarrow>
          if ot \<noteq> OUnit then filter (\<lambda>n. p \<in> set (array_sources nb n)) (array_names nb)
          else map fst (nix_objs nb par ot)
      | PBlock \<Rightarrow> map fst (nix_objs nb par ot))"

text \<open>
  What \<open>write_many\<close> needs of the function that writes one child: for children that
  are linked, it is as an \<open>array_writer\<close>; for children that are contained, the
  container has afterwards the entities it had and the one named after the child.
\<close>

definition child_writer ::
  "parent \<Rightarrow> obj_type \<Rightarrow> ('a \<Rightarrow> string) \<Rightarrow> (nix_block \<Rightarrow> 'a \<Rightarrow> error + nix_block) \<Rightarrow> bool" where
  "child_writer par ot conv wfn \<longleftrightarrow>
     (\<forall>b ob b'. wfn b ob = Inr b' \<longrightarrow>
        (if links_objects par ot
         then tags b' = tags b \<and> (\<forall>n. array_sources b' n = array_sources b n)
              \<and> set (array_names b') = insert (conv ob) (set (array_names b))
         else set (linked b' par ot) = insert (conv ob) (set (linked b par ot))))"

text \<open>
  The data objects, their payload (what a new data array is filled with), and the
  function \<open>write_\<close>\<open>obj_type\<close> that their class selects.
\<close>

fun is_data_object :: "neo_obj \<Rightarrow> bool" where
  "is_data_object (AnalogSignal _) = True"
| "is_data_object (IrregularlySampledSignal _) = True"
| "is_data_object (SpikeTrain _) = True"
| "is_data_object (Event _) = True"
| "is_data_object (Epoch _) = True"
| "is_data_object _ = False"

fun payload :: "neo_obj \<Rightarrow> bytes list" where
  "payload (AnalogSignal s) = [tostring (signal s)]"
| "payload (IrregularlySampledSignal s) = [tostring (signal s)]"
| "payload (SpikeTrain s) = [tostring (signal s)]"
| "payload (Event e) = [tostring (ev_times e)]"
| "payload (Epoch e) = [tostring (ep_times e), tostring (durations e)]"
| "payload _ = []"

fun write_data_object :: "(bytes \<Rightarrow> int) \<Rightarrow> nix_block \<Rightarrow> neo_obj \<Rightarrow> nix_block" where
  "write_data_object hash nb (AnalogSignal s) = write_analogsignal hash nb s"
| "write_data_object hash nb (IrregularlySampledSignal s) = write_irregularlysampledsignal hash nb s"
| "write_data_object hash nb (SpikeTrain s) = write_spiketrain hash nb s"
| "write_data_object hash nb (Event e) = write_event hash nb e"
| "write_data_object hash nb (Epoch e) = write_epoch hash nb e"
| "write_data_object hash nb _ = nb"

section \<open>Examples\<close>

text \<open>
  An environment for the examples: no string spells a number, and every string is the
  dimensionality string of a unit that the package finds under it.
\<close>

definition example_environment :: environment where
  "example_environment =
     \<lparr>str_float = (\<lambda>s. None), pq_unit = Some, pq_attr = Some\<rparr>"


definition example_hash :: "bytes \<Rightarrow> int" where
  "example_hash bs = int (length bs)"

definition example_signal :: "nat \<Rightarrow> string \<Rightarrow> string \<Rightarrow> analogsignal" where
  "example_signal n nm u =
     \<lparr>description = PNone, file_origin = PNone, annotations = [],
      d_name = PVal (Atom (AStr nm)),
      signal = \<lparr>dtype = ''float64'', tostring = replicate n 0\<rparr>, units = u,
      sampling_rate = \<lparr>item = 1000, q_units = ''Hz''\<rparr>,
      t_start = \<lparr>item = 0, q_units = ''s''\<rparr>\<rparr>"

definition example_array :: "nat \<Rightarrow> data_array" where
  "example_array n =
     \<lparr>da_type = ''analogsignal'', da_dtype = ''float64'', da_data = [replicate n 0],
      da_unit = Some ''mV'', dimensions = [], da_sources = [], da_metadata = None\<rparr>"

definition example_nix_block :: nix_block where
  "example_nix_block =
     \<lparr>blk_metadata = Section ''block'' [] [],
      tags = [(''trial'', \<lparr>tag_type = ''segment'', references = [''1'', ''2''],
                           tag_metadata = None\<rparr>)],
      sources = [],
      data_arrays = [(''1'', example_array 1), (''2'', example_array 2)],
      sweeps = 0\<rparr>"


section \<open>Properties of the file layer\<close>

lemma is_open_FileHandler_open: "is_open (snd (FileHandler_open fs fh))"
  by (simp add: FileHandler_open_def is_open_def Let_def)

lemma FileHandler_close_after_open:
  "FileHandler_close (snd (FileHandler_open fs fh)) =
     Inr ((snd (FileHandler_open fs fh))
            \<lparr>handle := Some \<lparr>h_mode = open_filemode fh (fs (filename fh) \<noteq> None), h_is_open = False\<rparr>\<rparr>)"
  by (simp add: FileHandler_open_def FileHandler_close_def Let_def)

section \<open>Properties of the attribute codec\<close>

lemma write_property_assigns:
  "map_of (fst st) (fst kv) = Some stored \<Longrightarrow>
   write_property st kv =
     (AList.update (fst kv) (make_nix_values (snd kv)) (fst st),
      snd st @ [SetValues (fst kv) (make_nix_values (snd kv))])"
  by (simp add: write_property_def Let_def property_values_def)

lemma write_property_creates:
  "map_of (fst st) (fst kv) = None \<Longrightarrow>
   write_property st kv =
     (fst st @ [(fst kv, make_nix_values (snd kv))],
      snd st @ [CreateProperty (fst kv) (make_nix_values (snd kv))])"
  by (simp add: write_property_def Let_def)

lemma write_property_lookup:
  "map_of (fst (write_property st kv)) k =
     (if k = fst kv then Some (make_nix_values (snd kv)) else map_of (fst st) k)"
  by (cases "map_of (fst st) (fst kv)")
     (auto simp: write_property_assigns write_property_creates update_conv' map_add_def
        split: option.splits)



lemma write_property_log_mono: "set (snd st) \<subseteq> set (snd (write_property st kv))"
  by (cases "map_of (fst st) (fst kv)")
     (auto simp: write_property_assigns write_property_creates)

lemma foldl_write_property_log_mono: "set (snd st) \<subseteq> set (snd (foldl write_property st kvs))"
proof (induction kvs arbitrary: st)
  case Nil
  then show ?case by simp
next
  case (Cons kv kvs)
  from Cons.IH[of "write_property st kv"] write_property_log_mono[of st kv]
  show ?case by auto
qed

lemma foldl_write_property_present:
  "map_of (fst st) k \<noteq> None \<Longrightarrow> map_of (fst (foldl write_property st kvs)) k \<noteq> None"
  by (induction kvs arbitrary: st) (simp_all add: write_property_lookup)

lemma foldl_write_property_assigns:
  "(k, v) \<in> set kvs \<Longrightarrow> map_of (fst st) k \<noteq> None \<Longrightarrow>
   SetValues k (make_nix_values v) \<in> set (snd (foldl write_property st kvs))"
proof (induction kvs arbitrary: st)
  case Nil
  then show ?case by simp
next
  case (Cons kv kvs)
  have p: "map_of (fst (write_property st kv)) k \<noteq> None"
    using Cons.prems(2) by (simp add: write_property_lookup)
  show ?case
  proof (cases "kv = (k, v)")
    case True
    from Cons.prems(2) obtain stored where "map_of (fst st) (fst kv) = Some stored"
      using True by auto
    then have "SetValues k (make_nix_values v) \<in> set (snd (write_property st kv))"
      using True by (simp add: write_property_assigns)
    with foldl_write_property_log_mono[of "write_property st kv" kvs] show ?thesis by auto
  next
    case False
    with Cons.prems(1) have "(k, v) \<in> set kvs" by auto
    from Cons.IH[OF this p] show ?thesis by simp
  qed
qed


lemma to_store_iff: "(k, v) \<in> set (to_store d) \<longleftrightarrow> (k, PVal v) \<in> set d"
  by (induction d rule: to_store.induct) auto

lemma to_store_keys: "fst ` set (to_store d) \<subseteq> fst ` set d"
  by (induction d rule: to_store.induct) auto

lemma distinct_to_store: "distinct (map fst d) \<Longrightarrow> distinct (map fst (to_store d))"
proof (induction d rule: to_store.induct)
  case (3 k v kvs)
  have "k \<notin> fst ` set (to_store kvs)" using to_store_keys[of kvs] 3(2) by auto
  with 3 show ?case by simp
qed simp_all


lemma foldl_write_property_keeps:
  "map_of (fst st) k = Some (make_nix_values v) \<Longrightarrow>
   \<forall>kv \<in> set kvs. fst kv = k \<longrightarrow> snd kv = v \<Longrightarrow>
   map_of (fst (foldl write_property st kvs)) k = Some (make_nix_values v)"
proof (induction kvs arbitrary: st)
  case Nil
  then show ?case by simp
next
  case (Cons kv kvs)
  have "map_of (fst (write_property st kv)) k = Some (make_nix_values v)"
    using Cons.prems by (simp add: write_property_lookup)
  with Cons show ?case by simp
qed

lemma write_metadata_log_assigns:
  assumes "(k, PVal v) \<in> set d" and "map_of ps k \<noteq> None"
  shows "SetValues k (make_nix_values v) \<in> set (snd (write_metadata_log ps d))"
  unfolding write_metadata_log_def
  by (rule foldl_write_property_assigns) (use assms in \<open>simp_all add: to_store_iff\<close>)












section \<open>Claims about the attribute codec\<close>

text \<open>
  Claim C6: writing an attribute whose property already holds the same value performs no
  mutation. The code has the guard for it, \<open>if not p.values == values\<close>, but the
  guard compares the tuple of the container with a list and never holds: the property
  \<open>description\<close>, stored with the value being written, is assigned again.
\<close>

theorem write_metadata_same_value_assigned:
  "map_of [(''description'', [AStr ''abc''])] ''description''
     = Some (make_nix_values (Atom (AStr ''abc'')))
   \<and> write_metadata_log [(''description'', [AStr ''abc''])]
         [(''description'', PVal (Atom (AStr ''abc'')))]
       = ([(''description'', [AStr ''abc''])], [SetValues ''description'' [AStr ''abc'']])"
  by (simp add: write_metadata_log_def write_property_def make_nix_values_def Let_def
      property_values_def)

text \<open>
  Claim C7, as stated: reading a quantity whose companion unit \<open>name__unit\<close> is
  absent raises \<open>MissingUnitError\<close>. The code has no such exception: the lookup of
  the unit in the section fails with the container's \<open>KeyError\<close>.
\<close>

theorem read_quantity_unit_absent_counterexample:
  "\<not> (\<forall>env ps q. map_of ps (q @ ''__unit'') = None \<longrightarrow>
          read_quantity env ps q = Inl MissingUnitError)"
proof
  assume "\<forall>env ps q. map_of ps (q @ ''__unit'') = None \<longrightarrow>
            read_quantity env ps q = Inl MissingUnitError"
  then have "map_of [(''t_start'', [AFloat 0])] (''t_start'' @ ''__unit'') = None \<longrightarrow>
     read_quantity example_environment [(''t_start'', [AFloat 0])] ''t_start''
       = Inl MissingUnitError" by blast
  then show False by (simp add: read_quantity_def section_getitem_def)
qed

text \<open>
  Claim C7, amended: when the property \<open>name__unit\<close> is absent, \<open>read_quantity\<close>
  raises \<open>KeyError\<close>, for the unit, or for the value itself when that is absent too
  (it is looked up first).
\<close>

theorem read_quantity_unit_absent_KeyError:
  assumes "map_of ps (q @ ''__unit'') = None"
  shows "read_quantity env ps q =
           Inl (KeyError (if map_of ps q = None then q else q @ ''__unit''))"
  using assms
  by (auto simp: read_quantity_def section_getitem_def split: option.splits list.splits)

theorem read_quantity_unit_absent_KeyError_witness:
  "map_of [(''t_start'', [AFloat 0])] (''t_start'' @ ''__unit'') = None
   \<and> read_quantity example_environment [(''t_start'', [AFloat 0])] ''t_start''
       = Inl (KeyError ''t_start__unit'')"
  using read_quantity_unit_absent_KeyError
    [of "[(''t_start'', [AFloat 0])]" "''t_start''" example_environment]
  by simp




section \<open>Claims about the file layer\<close>

text \<open>
  Claim C9. \<open>NixIO(filename, readonly)\<close> stores \<open>readonly\<close> on the IO object and
  builds its file handler without it, so the handler's flag is False whatever was asked
  for, and an existing file is opened in mode ReadWrite.
\<close>

theorem NixIO_readonly_not_passed:
  "io_readonly (NixIO_init fname ro) = ro
   \<and> readonly (io_f (NixIO_init fname ro)) = False
   \<and> open_filemode (io_f (NixIO_init fname ro)) True = ReadWrite
   \<and> FileHandler_open (fs(fname \<mapsto> file)) (io_f (NixIO_init fname ro)) =
       (fs(fname \<mapsto> file),
        \<lparr>filename = fname, readonly = False,
         handle = Some \<lparr>h_mode = ReadWrite, h_is_open = True\<rparr>\<rparr>)"
  by (simp add: NixIO_init_def FileHandler_init_def open_filemode_def FileHandler_open_def)

text \<open>
  Claim C8, as stated: after the first access to a ProxyList the handle is open exactly
  if it was open before. It fails when the fetch function raises: the handle that the
  proxy opened is not closed. Here the fetch looks up block \<open>foo\<close>, as
  \<open>nix_file.blocks[block_id]\<close> does in every fetch function of the Reader, in a file
  that has no such block.
\<close>

theorem ProxyList_data_counterexample:
  "\<not> (\<forall>(p :: nat proxy_list) fs fh. cache p = None \<longrightarrow>
        is_open (snd (snd (snd (ProxyList_data p (fs, fh))))) = is_open fh)"
proof
  assume a: "\<forall>(p :: nat proxy_list) fs fh. cache p = None \<longrightarrow>
        is_open (snd (snd (snd (ProxyList_data p (fs, fh))))) = is_open fh"
  let ?p = "ProxyList_init (\<lambda>nix_file. case map_of nix_file ''foo'' of
               None \<Rightarrow> Inl (KeyError ''foo'') | Some b \<Rightarrow> Inr []) :: nat proxy_list"
  from a have "cache ?p = None \<longrightarrow>
     is_open (snd (snd (snd (ProxyList_data ?p (Map.empty, FileHandler_init ''f.h5'' False)))))
       = is_open (FileHandler_init ''f.h5'' False)" by blast
  then show False
    by (simp add: ProxyList_init_def ProxyList_data_def FileHandler_init_def is_open_def
        FileHandler_open_def open_filemode_def file_contents_def Let_def)
qed

text \<open>
  Claim C8, amended: on the first access the fetch function is applied to the file of
  the handler; when it returns, its result is cached and the handle is open exactly if
  it was open before the access; when it raises, nothing is cached and the handle is
  left open.
\<close>

theorem ProxyList_data_restores_open_state:
  assumes "cache p = None" and "ProxyList_data p (fs, fh) = (r, p', (fs', fh'))"
  shows "r = fetch_func p (file_contents fs' fh')
       \<and> (case r of
            Inr xs \<Rightarrow> cache p' = Some xs \<and> is_open fh' = is_open fh
          | Inl e \<Rightarrow> cache p' = None \<and> is_open fh')"
proof (cases "is_open fh")
  case True
  with assms show ?thesis
    by (auto simp: ProxyList_data_def Let_def split: sum.splits)
next
  case False
  obtain fs1 fh1 where o: "FileHandler_open fs fh = (fs1, fh1)" by (cases "FileHandler_open fs fh")
  have op: "is_open fh1" using is_open_FileHandler_open[of fs fh] o by simp
  obtain h where cl: "FileHandler_close fh1 = Inr (fh1\<lparr>handle := Some h\<rparr>)" and h: "\<not> h_is_open h"
    using FileHandler_close_after_open[of fs fh] o by auto
  have c: "file_contents fs1 (fh1\<lparr>handle := Some h\<rparr>) = file_contents fs1 fh1"
    by (simp add: file_contents_def)
  have n: "\<not> is_open (fh1\<lparr>handle := Some h\<rparr>)" using h by (simp add: is_open_def)
  from False assms o op cl c n show ?thesis
    by (auto simp: ProxyList_data_def Let_def split: sum.splits)
qed

theorem ProxyList_data_restores_open_state_witness:
  "ProxyList_data (ProxyList_init (\<lambda>nix_file. Inr (map fst nix_file)))
      ([''f.h5'' \<mapsto> [(''foo'', \<lparr>blk_metadata = Section ''block'' [] [], tags = [], sources = [],
                          data_arrays = [], sweeps = 0\<rparr>)]],
       FileHandler_init ''f.h5'' False)
   = (Inr [''foo''],
      \<lparr>fetch_func = (\<lambda>nix_file. Inr (map fst nix_file)), cache = Some [''foo'']\<rparr>,
      ([''f.h5'' \<mapsto> [(''foo'', \<lparr>blk_metadata = Section ''block'' [] [], tags = [], sources = [],
                          data_arrays = [], sweeps = 0\<rparr>)]],
       \<lparr>filename = ''f.h5'', readonly = False,
        handle = Some \<lparr>h_mode = ReadWrite, h_is_open = False\<rparr>\<rparr>))
   \<and> is_open \<lparr>filename = ''f.h5'', readonly = False,
        handle = Some \<lparr>h_mode = ReadWrite, h_is_open = False\<rparr>\<rparr> = is_open (FileHandler_init ''f.h5'' False)"
proof -
  let ?p = "ProxyList_init (\<lambda>nix_file. Inr (map fst nix_file)) :: string proxy_list"
  let ?fs = "[''f.h5'' \<mapsto> [(''foo'', \<lparr>blk_metadata = Section ''block'' [] [], tags = [], sources = [],
                          data_arrays = [], sweeps = 0\<rparr>)]]"
  let ?fh = "FileHandler_init ''f.h5'' False"
  have e: "ProxyList_data ?p (?fs, ?fh)
     = (Inr [''foo''],
      \<lparr>fetch_func = (\<lambda>nix_file. Inr (map fst nix_file)), cache = Some [''foo'']\<rparr>,
      (?fs, \<lparr>filename = ''f.h5'', readonly = False,
        handle = Some \<lparr>h_mode = ReadWrite, h_is_open = False\<rparr>\<rparr>))"
    by (simp add: ProxyList_init_def ProxyList_data_def FileHandler_init_def is_open_def
        FileHandler_open_def open_filemode_def file_contents_def Let_def FileHandler_close_def)
  have c: "cache ?p = None" by (simp add: ProxyList_init_def)
  from ProxyList_data_restores_open_state[OF c e] e show ?thesis by simp
qed

section \<open>Properties of the writers\<close>

subsection \<open>primitives\<close>

lemma map_fst_map_entry: "map fst (AList.map_entry k g al) = map fst al"
  by (induction al) auto

lemma map_data_array_frame [simp]:
  "tags (map_data_array n g nb) = tags nb"
  "sources (map_data_array n g nb) = sources nb"
  "sweeps (map_data_array n g nb) = sweeps nb"
  "blk_metadata (map_data_array n g nb) = blk_metadata nb"
  "array_names (map_data_array n g nb) = array_names nb"
  by (simp_all add: map_data_array_def array_names_def map_fst_map_entry)

lemma map_tag_frame [simp]:
  "data_arrays (map_tag n g nb) = data_arrays nb"
  "sources (map_tag n g nb) = sources nb"
  "sweeps (map_tag n g nb) = sweeps nb"
  "blk_metadata (map_tag n g nb) = blk_metadata nb"
  "tag_names (map_tag n g nb) = tag_names nb"
  "array_names (map_tag n g nb) = array_names nb"
  "array_sources (map_tag n g nb) m = array_sources nb m"
  by (simp_all add: map_tag_def tag_names_def array_names_def array_sources_def map_fst_map_entry)

lemma create_data_array_frame [simp]:
  "tags (create_data_array nb n ty dt pl) = tags nb"
  "sources (create_data_array nb n ty dt pl) = sources nb"
  "sweeps (create_data_array nb n ty dt pl) = sweeps nb"
  "blk_metadata (create_data_array nb n ty dt pl) = blk_metadata nb"
  "array_names (create_data_array nb n ty dt pl) = array_names nb @ [n]"
  by (simp_all add: create_data_array_def array_names_def)

lemma write_section_frame [simp]:
  "tags (write_section nb g n md) = tags nb"
  "sources (write_section nb g n md) = sources nb"
  "sweeps (write_section nb g n md) = sweeps nb"
  "data_arrays (write_section nb g n md) = data_arrays nb"
  "array_names (write_section nb g n md) = array_names nb"
  "tag_names (write_section nb g n md) = tag_names nb"
  "array_sources (write_section nb g n md) m = array_sources nb m"
  "tag_references (write_section nb g n md) t = tag_references nb t"
  by (simp_all add: write_section_def array_names_def tag_names_def array_sources_def tag_references_def)

lemma clean_frame [simp]:
  "tags (clean nb) = tags nb"
  "sources (clean nb) = sources nb"
  "sweeps (clean nb) = Suc (sweeps nb)"
  "blk_metadata (clean nb) = blk_metadata nb"
  "tag_names (clean nb) = tag_names nb"
  "tag_references (clean nb) t = tag_references nb t"
  by (simp_all add: clean_def tag_names_def tag_references_def)

lemma array_sources_create [simp]:
  "array_sources (create_data_array nb n ty dt pl) m = array_sources nb m"
  by (simp add: array_sources_def create_data_array_def map_add_def split: option.splits)

lemma array_sources_map_data_array:
  "(\<And>a. da_sources (g a) = da_sources a) \<Longrightarrow>
   array_sources (map_data_array n g nb) m = array_sources nb m"
  by (simp add: array_sources_def map_data_array_def map_of_map_entry split: option.splits)

lemma da_sources_with_first_dimension [simp]:
  "da_sources (with_first_dimension new upd a) = da_sources a"
  by (simp add: with_first_dimension_def split: list.splits)

lemma map_of_None_array_names: "map_of (data_arrays nb) n = None \<longleftrightarrow> n \<notin> set (array_names nb)"
  by (simp add: array_names_def map_of_eq_None_iff)

lemma tag_references_map_data_array [simp]:
  "tag_references (map_data_array n g nb) t = tag_references nb t"
  by (simp add: tag_references_def)

lemma tag_references_create [simp]:
  "tag_references (create_data_array nb n ty dt pl) t = tag_references nb t"
  by (simp add: tag_references_def)

subsection \<open>the five writers of data objects\<close>

lemma array_writer_analogsignal:
  "array_writer (\<lambda>x. get_obj_nix_name hash (AnalogSignal x)) (write_analogsignal hash)"
  by (auto simp: array_writer_def write_analogsignal_def Let_def array_sources_map_data_array
      map_of_None_array_names)

lemma array_writer_irregularlysampledsignal:
  "array_writer (\<lambda>x. get_obj_nix_name hash (IrregularlySampledSignal x))
     (write_irregularlysampledsignal hash)"
  by (auto simp: array_writer_def write_irregularlysampledsignal_def Let_def
      array_sources_map_data_array map_of_None_array_names)

lemma array_writer_spiketrain:
  "array_writer (\<lambda>x. get_obj_nix_name hash (SpikeTrain x)) (write_spiketrain hash)"
  by (auto simp: array_writer_def write_spiketrain_def Let_def array_sources_map_data_array
      map_of_None_array_names split: option.splits)



subsection \<open>write_all\<close>

lemma write_all_leaf_writer:
  assumes "array_writer conv w"
  shows "\<exists>nb1. write_all (leaf_writer w) nb obs = Inr nb1
           \<and> tags nb1 = tags nb \<and> sources nb1 = sources nb \<and> sweeps nb1 = sweeps nb
           \<and> (\<forall>n. array_sources nb1 n = array_sources nb n)
           \<and> set (array_names nb1) = set (array_names nb) \<union> conv ` set obs"
proof (induction obs arbitrary: nb)
  case Nil
  then show ?case by simp
next
  case (Cons ob obs)
  from Cons.IH[of "w nb ob"] assms show ?case
    by (auto simp: leaf_writer_def array_writer_def)
qed


subsection \<open>links\<close>

lemma set_to_remove [simp]: "set (to_remove e d) = set e - set d"
  by (auto simp: to_remove_def)

lemma set_to_append [simp]: "set (to_append e d) = set d - set e"
  by (auto simp: to_append_def)

lemma distinct_to_remove [simp]: "distinct (to_remove e d)"
  by (simp add: to_remove_def)

lemma distinct_to_append [simp]: "distinct (to_append e d)"
  by (simp add: to_append_def)

lemma set_append_link [simp]: "set (append_link xs x) = insert x (set xs)"
  by (auto simp: append_link_def)

lemma tag_references_map_tag:
  "tag_references (map_tag t g nb) t' =
     (if t' = t then (case map_of (tags nb) t of None \<Rightarrow> [] | Some tg \<Rightarrow> references (g tg))
      else tag_references nb t')"
  by (simp add: tag_references_def map_tag_def map_of_map_entry split: option.splits)

lemma tags_map_tag_names [simp]: "fst ` set (tags (map_tag t g nb)) = fst ` set (tags nb)"
  by (simp add: map_tag_def dom_map_entry)

lemma del_references_ok:
  assumes "distinct ns" and "set ns \<subseteq> set (tag_references nb t)"
  shows "\<exists>nb'. del_references t ns nb = Inr nb'
           \<and> set (tag_references nb' t) = set (tag_references nb t) - set ns
           \<and> (\<forall>t'. t' \<noteq> t \<longrightarrow> tag_references nb' t' = tag_references nb t')
           \<and> fst ` set (tags nb') = fst ` set (tags nb)
           \<and> data_arrays nb' = data_arrays nb \<and> sources nb' = sources nb
           \<and> sweeps nb' = sweeps nb \<and> blk_metadata nb' = blk_metadata nb"
  using assms
proof (induction ns arbitrary: nb)
  case Nil
  then show ?case by simp
next
  case (Cons n ns)
  let ?nb1 = "map_tag t (\<lambda>tg. tg\<lparr>references := removeAll n (references tg)\<rparr>) nb"
  have r1: "set (tag_references ?nb1 t) = set (tag_references nb t) - {n}"
    by (cases "map_of (tags nb) t") (simp_all add: tag_references_map_tag, simp_all add: tag_references_def)
  have o1: "\<forall>t'. t' \<noteq> t \<longrightarrow> tag_references ?nb1 t' = tag_references nb t'"
    by (simp add: tag_references_map_tag)
  from Cons.prems have "distinct ns" and "set ns \<subseteq> set (tag_references ?nb1 t)"
    using r1 by auto
  from Cons.IH[OF this] obtain nb' where
    "del_references t ns ?nb1 = Inr nb'"
    "set (tag_references nb' t) = set (tag_references ?nb1 t) - set ns"
    "\<forall>t'. t' \<noteq> t \<longrightarrow> tag_references nb' t' = tag_references ?nb1 t'"
    "fst ` set (tags nb') = fst ` set (tags ?nb1)"
    "data_arrays nb' = data_arrays ?nb1" "sources nb' = sources ?nb1"
    "sweeps nb' = sweeps ?nb1" "blk_metadata nb' = blk_metadata ?nb1" by blast
  with Cons.prems r1 o1 show ?case by auto
qed

lemma append_references_ok:
  assumes "set ns \<subseteq> set (array_names nb)"
  shows "\<exists>nb'. append_references t ns nb = Inr nb'
           \<and> (t \<in> fst ` set (tags nb) \<longrightarrow>
                set (tag_references nb' t) = set (tag_references nb t) \<union> set ns)
           \<and> (\<forall>t'. t' \<noteq> t \<longrightarrow> tag_references nb' t' = tag_references nb t')
           \<and> fst ` set (tags nb') = fst ` set (tags nb)
           \<and> data_arrays nb' = data_arrays nb \<and> sources nb' = sources nb
           \<and> sweeps nb' = sweeps nb \<and> blk_metadata nb' = blk_metadata nb"
  using assms
proof (induction ns arbitrary: nb)
  case Nil
  then show ?case by simp
next
  case (Cons n ns)
  let ?nb1 = "map_tag t (\<lambda>tg. tg\<lparr>references := append_link (references tg) n\<rparr>) nb"
  have r1: "t \<in> fst ` set (tags nb) \<Longrightarrow>
            set (tag_references ?nb1 t) = insert n (set (tag_references nb t))"
  proof -
    assume "t \<in> fst ` set (tags nb)"
    then obtain tg where tg: "map_of (tags nb) t = Some tg"
      by (cases "map_of (tags nb) t") (auto simp: map_of_eq_None_iff)
    then have "tag_references nb t = references tg" by (simp add: tag_references_def)
    with tg show ?thesis by (simp add: tag_references_map_tag)
  qed
  have o1: "\<forall>t'. t' \<noteq> t \<longrightarrow> tag_references ?nb1 t' = tag_references nb t'"
    by (simp add: tag_references_map_tag)
  from Cons.prems have "set ns \<subseteq> set (array_names ?nb1)" by simp
  from Cons.IH[OF this] obtain nb' where
    "append_references t ns ?nb1 = Inr nb'"
    "t \<in> fst ` set (tags ?nb1) \<longrightarrow>
       set (tag_references nb' t) = set (tag_references ?nb1 t) \<union> set ns"
    "\<forall>t'. t' \<noteq> t \<longrightarrow> tag_references nb' t' = tag_references ?nb1 t'"
    "fst ` set (tags nb') = fst ` set (tags ?nb1)"
    "data_arrays nb' = data_arrays ?nb1" "sources nb' = sources ?nb1"
    "sweeps nb' = sweeps ?nb1" "blk_metadata nb' = blk_metadata ?nb1" by blast
  moreover have "map_of (data_arrays nb) n \<noteq> None"
    using Cons.prems by (simp add: map_of_None_array_names)
  ultimately show ?case using r1 o1 by auto
qed

lemma existing_names_tag_subset:
  "set (existing_names nb (PTag t) ot) \<subseteq> set (tag_references nb t)"
  by (auto simp: existing_names_def Let_def)

lemma existing_names_source_subset:
  "ot \<noteq> OUnit \<Longrightarrow> n \<in> set (existing_names nb (PSource p) ot) \<Longrightarrow>
   is_array_type ot \<Longrightarrow> n \<in> set (array_names nb) \<and> p \<in> set (array_sources nb n)"
  by (force simp: existing_names_def Let_def nix_objs_def is_array_type_def array_names_def)

theorem write_many_references:
  assumes "array_writer conv w" and "is_array_type ot" and "t \<in> fst ` set (tags nb)"
    and "obs \<noteq> []"
  shows "\<exists>nb'. write_many ot conv (leaf_writer w) nb (PTag t) obs = Inr nb'
          \<and> set (tag_references nb' t) =
               (set (tag_references nb t)
                  - (set (existing_names nb (PTag t) ot) - conv ` set obs))
               \<union> (conv ` set obs - set (existing_names nb (PTag t) ot))"
proof -
  let ?E = "existing_names nb (PTag t) ot"
  let ?D = "map conv obs"
  from write_all_leaf_writer[OF assms(1), of nb obs] obtain nb1 where
    w: "write_all (leaf_writer w) nb obs = Inr nb1" and t1: "tags nb1 = tags nb"
    and n1: "set (array_names nb1) = set (array_names nb) \<union> conv ` set obs" by blast
  have r1: "tag_references nb1 t = tag_references nb t" using t1 by (simp add: tag_references_def)
  have "set (to_remove ?E ?D) \<subseteq> set (tag_references nb1 t)"
    using existing_names_tag_subset[of nb t ot] r1 by auto
  from del_references_ok[OF distinct_to_remove this] obtain nb2 where
    d: "del_references t (to_remove ?E ?D) nb1 = Inr nb2"
    and r2: "set (tag_references nb2 t) = set (tag_references nb1 t) - set (to_remove ?E ?D)"
    and t2: "fst ` set (tags nb2) = fst ` set (tags nb1)"
    and a2: "data_arrays nb2 = data_arrays nb1" by blast
  have "set (to_append ?E ?D) \<subseteq> set (array_names nb2)"
    using n1 a2 by (auto simp: array_names_def)
  from append_references_ok[OF this, of t] obtain nb3 where
    a: "append_references t (to_append ?E ?D) nb2 = Inr nb3"
    and r3: "t \<in> fst ` set (tags nb2) \<longrightarrow>
             set (tag_references nb3 t) = set (tag_references nb2 t) \<union> set (to_append ?E ?D)"
    by blast
  have "write_many ot conv (leaf_writer w) nb (PTag t) obs = Inr nb3"
    using assms(2,4) w d a
    by (simp add: write_many_def links_objects_def Let_def bind_err_def update_references_def)
  moreover have "set (tag_references nb3 t) =
      (set (tag_references nb t) - (set ?E - conv ` set obs)) \<union> (conv ` set obs - set ?E)"
    using r3 r2 r1 t2 t1 assms(3) by simp
  ultimately show ?thesis by blast
qed


subsection \<open>source links\<close>

lemma array_sources_map_data_array_eq:
  "array_sources (map_data_array n g nb) m =
     (if m = n then (case map_of (data_arrays nb) n of None \<Rightarrow> [] | Some a \<Rightarrow> da_sources (g a))
      else array_sources nb m)"
  by (simp add: array_sources_def map_data_array_def map_of_map_entry split: option.splits)

lemma array_sources_absent: "n \<notin> set (array_names nb) \<Longrightarrow> array_sources nb n = []"
  by (simp add: array_sources_def map_of_None_array_names[symmetric])

lemma del_sources_ok:
  assumes "distinct ns"
    and "\<forall>n \<in> set ns. n \<in> set (array_names nb) \<and> p \<in> set (array_sources nb n)"
  shows "\<exists>nb'. del_sources p ns nb = Inr nb'
           \<and> (\<forall>m. array_sources nb' m =
                 (if m \<in> set ns then filter (\<lambda>s. last s \<noteq> last p) (array_sources nb m)
                  else array_sources nb m))
           \<and> array_names nb' = array_names nb
           \<and> tags nb' = tags nb \<and> sources nb' = sources nb
           \<and> sweeps nb' = sweeps nb \<and> blk_metadata nb' = blk_metadata nb"
  using assms
proof (induction ns arbitrary: nb)
  case Nil
  then show ?case by simp
next
  case (Cons n ns)
  let ?nb1 = "map_data_array n
                (\<lambda>a. a\<lparr>da_sources := filter (\<lambda>s. last s \<noteq> last p) (da_sources a)\<rparr>) nb"
  from Cons.prems have inn: "n \<in> set (array_names nb)" and pin: "p \<in> set (array_sources nb n)"
    and nn: "n \<notin> set ns" by auto
  have s1: "array_sources ?nb1 m =
      (if m = n then filter (\<lambda>s. last s \<noteq> last p) (array_sources nb m) else array_sources nb m)" for m
    by (simp add: array_sources_map_data_array_eq, simp add: array_sources_def split: option.splits)
  have pre: "distinct ns" "\<forall>m \<in> set ns. m \<in> set (array_names ?nb1) \<and> p \<in> set (array_sources ?nb1 m)"
    using Cons.prems nn by (auto simp: s1)
  from Cons.IH[OF pre] obtain nb' where
    "del_sources p ns ?nb1 = Inr nb'"
    "\<forall>m. array_sources nb' m =
                 (if m \<in> set ns then filter (\<lambda>s. last s \<noteq> last p) (array_sources ?nb1 m)
                  else array_sources ?nb1 m)"
    "array_names nb' = array_names ?nb1"
    "tags nb' = tags ?nb1" "sources nb' = sources ?nb1"
    "sweeps nb' = sweeps ?nb1" "blk_metadata nb' = blk_metadata ?nb1" by blast
  moreover have "map_of (data_arrays nb) n \<noteq> None" using inn by (simp add: map_of_None_array_names)
  moreover have "last p \<in> last ` set (array_sources nb n)" using pin by blast
  ultimately show ?case using nn by (auto simp: s1)
qed

lemma append_sources_ok:
  assumes "set ns \<subseteq> set (array_names nb)"
  shows "\<exists>nb'. append_sources p ns nb = Inr nb'
           \<and> (\<forall>m. set (array_sources nb' m) =
                 (if m \<in> set ns then insert p (set (array_sources nb m))
                  else set (array_sources nb m)))
           \<and> array_names nb' = array_names nb
           \<and> tags nb' = tags nb \<and> sources nb' = sources nb
           \<and> sweeps nb' = sweeps nb \<and> blk_metadata nb' = blk_metadata nb"
  using assms
proof (induction ns arbitrary: nb)
  case Nil
  then show ?case by simp
next
  case (Cons n ns)
  let ?nb1 = "map_data_array n (\<lambda>a. a\<lparr>da_sources := append_link (da_sources a) p\<rparr>) nb"
  from Cons.prems have inn: "n \<in> set (array_names nb)" by simp
  then obtain a where a: "map_of (data_arrays nb) n = Some a"
    by (cases "map_of (data_arrays nb) n") (auto simp: map_of_None_array_names)
  have s1: "set (array_sources ?nb1 m) =
      (if m = n then insert p (set (array_sources nb m)) else set (array_sources nb m))" for m
    using a by (simp add: array_sources_map_data_array_eq, simp add: array_sources_def)
  have pre: "set ns \<subseteq> set (array_names ?nb1)" using Cons.prems by simp
  from Cons.IH[OF pre] obtain nb' where
    "append_sources p ns ?nb1 = Inr nb'"
    "\<forall>m. set (array_sources nb' m) =
                 (if m \<in> set ns then insert p (set (array_sources ?nb1 m))
                  else set (array_sources ?nb1 m))"
    "array_names nb' = array_names ?nb1"
    "tags nb' = tags ?nb1" "sources nb' = sources ?nb1"
    "sweeps nb' = sweeps ?nb1" "blk_metadata nb' = blk_metadata ?nb1" by blast
  with a show ?case by (auto simp: s1)
qed


subsection \<open>containment\<close>

lemma find_source_map_source:
  "find_source (map_source p g srcs) p = map_option g (find_source srcs p)"
proof (induction p g srcs rule: map_source.induct)
  case (1 upd srcs)
  then show ?case by simp
next
  case (2 n upd srcs)
  then show ?case by (simp add: map_of_map_entry split: option.splits)
next
  case (3 n v va upd srcs)
  then show ?case by (simp add: map_of_map_entry split: option.splits)
qed

lemma map_source_names: "fst ` set (map_source p g srcs) = fst ` set srcs"
  by (induction p g srcs rule: map_source.induct) (simp_all add: dom_map_entry)

lemma delete_names: "fst ` set (AList.delete n al) = fst ` set al - {n}"
  by (induction al) auto

lemma image_fst_map: "fst ` (\<lambda>x. (fst x, h (snd x))) ` A = fst ` A"
  by force

lemma linked_contained:
  "\<not> links_objects par ot \<Longrightarrow> set (linked nb par ot) = fst ` set (nix_objs nb par ot)"
  by (cases par) (simp_all add: linked_def links_objects_def)

lemma nix_objs_names:
  "fst ` set (nix_objs nb par ot) =
     (if ot = OSegment then fst ` set (tags nb)
      else if ot = ORecordingChannelGroup then fst ` set (sources nb)
      else if ot = OUnit then fst ` set (parent_sources nb par)
      else fst ` set (data_arrays nb))"
  by (simp add: nix_objs_def image_fst_map)

lemma del_obj_ok:
  assumes "\<not> links_objects par ot" and "n \<in> fst ` set (nix_objs nb par ot)"
  shows "\<exists>nb'. del_obj ot par n nb = Inr nb'
           \<and> fst ` set (nix_objs nb' par ot) = fst ` set (nix_objs nb par ot) - {n}
           \<and> sweeps nb' = sweeps nb \<and> blk_metadata nb' = blk_metadata nb
           \<and> (ot \<noteq> OSegment \<longrightarrow> tags nb' = tags nb)
           \<and> (\<not> is_array_type ot \<longrightarrow> data_arrays nb' = data_arrays nb)
           \<and> (ot = OSegment \<longrightarrow> sources nb' = sources nb)
           \<and> (ot = OUnit \<and> par \<noteq> PBlock \<longrightarrow> fst ` set (sources nb') = fst ` set (sources nb))"
proof -
  consider (seg) "ot = OSegment" | (rcg) "ot = ORecordingChannelGroup"
    | (unit_blk) "ot = OUnit" "par = PBlock" | (unit_src) p where "ot = OUnit" "par = PSource p"
    | (arr) "is_array_type ot"
    using assms(1) by (cases par) (auto simp: is_array_type_def links_objects_def)
  then show ?thesis
  proof cases
    case seg
    with assms(2) show ?thesis
      by (intro exI[of _ "nb\<lparr>tags := AList.delete n (tags nb)\<rparr>"])
         (simp add: del_obj_def nix_objs_names delete_names is_array_type_def)
  next
    case rcg
    with assms(2) show ?thesis
      by (intro exI[of _ "nb\<lparr>sources := AList.delete n (sources nb)\<rparr>"])
         (simp add: del_obj_def nix_objs_names delete_names is_array_type_def)
  next
    case unit_blk
    with assms(2) show ?thesis
      by (intro exI[of _ "nb\<lparr>sources := AList.delete n (sources nb)\<rparr>"])
         (simp add: del_obj_def nix_objs_names delete_names is_array_type_def parent_sources_def)
  next
    case (unit_src p)
    from assms(2) unit_src have "n \<in> fst ` set (parent_sources nb (PSource p))"
      by (simp add: nix_objs_names)
    then obtain s where s: "find_source (sources nb) p = Some s"
      by (cases "find_source (sources nb) p") (simp_all add: parent_sources_def)
    let ?g = "\<lambda>s. Source (src_type s) (src_metadata s) (AList.delete n (src_sources s))"
    from assms(2) unit_src s show ?thesis
      by (intro exI[of _ "nb\<lparr>sources := map_source p ?g (sources nb)\<rparr>"])
         (simp add: del_obj_def nix_objs_names parent_sources_def find_source_map_source
            delete_names is_array_type_def map_source_names)
  next
    case arr
    then have o: "ot \<noteq> OSegment" "ot \<noteq> ORecordingChannelGroup" "ot \<noteq> OUnit"
      by (simp_all add: is_array_type_def)
    with assms(2) arr show ?thesis
      by (intro exI[of _ "nb\<lparr>data_arrays := AList.delete n (data_arrays nb)\<rparr>"])
         (simp add: del_obj_def nix_objs_names delete_names)
  qed
qed

lemma del_objs_ok:
  assumes "\<not> links_objects par ot" and "distinct ns"
    and "set ns \<subseteq> fst ` set (nix_objs nb par ot)"
  shows "\<exists>nb'. del_objs ot par ns nb = Inr nb'
           \<and> fst ` set (nix_objs nb' par ot) = fst ` set (nix_objs nb par ot) - set ns
           \<and> sweeps nb' = sweeps nb \<and> blk_metadata nb' = blk_metadata nb
           \<and> (ot \<noteq> OSegment \<longrightarrow> tags nb' = tags nb)
           \<and> (\<not> is_array_type ot \<longrightarrow> data_arrays nb' = data_arrays nb)
           \<and> (ot = OSegment \<longrightarrow> sources nb' = sources nb)
           \<and> (ot = OUnit \<and> par \<noteq> PBlock \<longrightarrow> fst ` set (sources nb') = fst ` set (sources nb))"
  using assms(2,3)
proof (induction ns arbitrary: nb)
  case Nil
  then show ?case by simp
next
  case (Cons n ns)
  from Cons.prems have "n \<in> fst ` set (nix_objs nb par ot)" by simp
  from del_obj_ok[OF assms(1) this] obtain nb1 where
    d: "del_obj ot par n nb = Inr nb1"
    and n1: "fst ` set (nix_objs nb1 par ot) = fst ` set (nix_objs nb par ot) - {n}"
    and f1: "sweeps nb1 = sweeps nb" "blk_metadata nb1 = blk_metadata nb"
      "ot \<noteq> OSegment \<longrightarrow> tags nb1 = tags nb"
      "\<not> is_array_type ot \<longrightarrow> data_arrays nb1 = data_arrays nb"
      "ot = OSegment \<longrightarrow> sources nb1 = sources nb"
      "ot = OUnit \<and> par \<noteq> PBlock \<longrightarrow> fst ` set (sources nb1) = fst ` set (sources nb)" by blast
  from Cons.prems n1 have "distinct ns" "set ns \<subseteq> fst ` set (nix_objs nb1 par ot)" by auto
  from Cons.IH[OF this] obtain nb' where
    "del_objs ot par ns nb1 = Inr nb'"
    "fst ` set (nix_objs nb' par ot) = fst ` set (nix_objs nb1 par ot) - set ns"
    "sweeps nb' = sweeps nb1" "blk_metadata nb' = blk_metadata nb1"
    "ot \<noteq> OSegment \<longrightarrow> tags nb' = tags nb1"
    "\<not> is_array_type ot \<longrightarrow> data_arrays nb' = data_arrays nb1"
    "ot = OSegment \<longrightarrow> sources nb' = sources nb1"
    "ot = OUnit \<and> par \<noteq> PBlock \<longrightarrow> fst ` set (sources nb') = fst ` set (sources nb1)" by blast
  with d n1 f1 show ?case by (intro exI[of _ nb']) (simp, blast)
qed

subsection \<open>Sweeps\<close>

lemma sweeps_map_data_array [simp]: "sweeps (map_data_array n g nb) = sweeps nb"
  by (simp add: map_data_array_def)

lemma sweeps_map_tag [simp]: "sweeps (map_tag n g nb) = sweeps nb"
  by (simp add: map_tag_def)

lemma sweeps_write_section [simp]: "sweeps (write_section nb g n md) = sweeps nb"
  by (simp add: write_section_def)

lemma sweeps_create [simp]: "sweeps (create_data_array nb n ty dt pl) = sweeps nb"
  by (simp add: create_data_array_def)

lemma sweeps_clean [simp]: "sweeps (clean nb) = Suc (sweeps nb)"
  by (simp add: clean_def)

lemma sweeps_write_analogsignal [simp]: "sweeps (write_analogsignal hash nb s) = sweeps nb"
  by (simp add: write_analogsignal_def Let_def)

lemma sweeps_write_irregularlysampledsignal [simp]:
  "sweeps (write_irregularlysampledsignal hash nb s) = sweeps nb"
  by (simp add: write_irregularlysampledsignal_def Let_def)

lemma sweeps_write_spiketrain [simp]: "sweeps (write_spiketrain hash nb s) = sweeps nb"
  by (simp add: write_spiketrain_def Let_def split: option.splits)

lemma sweeps_write_event [simp]: "sweeps (write_event hash nb s) = sweeps nb"
  by (simp add: write_event_def Let_def)

lemma sweeps_write_epoch [simp]: "sweeps (write_epoch hash nb s) = sweeps nb"
  by (simp add: write_epoch_def Let_def)





lemma bind_err_Inr: "bind_err r k = Inr y \<longleftrightarrow> (\<exists>x. r = Inr x \<and> k x = Inr y)"
  by (cases r) (simp_all add: bind_err_def)














subsection \<open>write_many\<close>

lemma existing_names_linked: 
  "links_objects par ot \<longrightarrow> is_array_type ot \<Longrightarrow>
   set (existing_names nb par ot) \<subseteq> set (linked nb par ot)"
  by (cases par)
     (force simp: existing_names_def linked_def Let_def links_objects_def nix_objs_def
        is_array_type_def array_names_def split: if_splits)+

lemma write_all_child_writer:
  assumes "child_writer par ot conv wfn" and "write_all wfn nb obs = Inr nb1"
  shows "if links_objects par ot
         then tags nb1 = tags nb \<and> (\<forall>n. array_sources nb1 n = array_sources nb n)
              \<and> set (array_names nb1) = set (array_names nb) \<union> conv ` set obs
         else set (linked nb1 par ot) = set (linked nb par ot) \<union> conv ` set obs"
  using assms(2)
proof (induction obs arbitrary: nb)
  case Nil
  then show ?case by simp
next
  case (Cons ob obs)
  from Cons.prems obtain b1 where w: "wfn nb ob = Inr b1" and r: "write_all wfn b1 obs = Inr nb1"
    by (auto split: sum.splits)
  from assms(1) w have
    "if links_objects par ot
     then tags b1 = tags nb \<and> (\<forall>n. array_sources b1 n = array_sources nb n)
          \<and> set (array_names b1) = insert (conv ob) (set (array_names nb))
     else set (linked b1 par ot) = insert (conv ob) (set (linked nb par ot))"
    unfolding child_writer_def by blast
  with Cons.IH[OF r] show ?case by (auto split: if_splits)
qed


lemma write_many_effect_contained:
  assumes "obs \<noteq> []" and "\<not> links_objects par ot"
    and "child_writer par ot conv wfn"
    and "write_all wfn nb obs = Inr nb1"
  shows "\<exists>nb'. write_many ot conv wfn nb par obs = Inr nb'
          \<and> set (linked nb' par ot) =
               (set (linked nb par ot) - (set (existing_names nb par ot) - conv ` set obs))
               \<union> (conv ` set obs - set (existing_names nb par ot))
          \<and> sweeps nb' = sweeps nb1 \<and> blk_metadata nb' = blk_metadata nb1
          \<and> (ot \<noteq> OSegment \<longrightarrow> tags nb' = tags nb1)
          \<and> (\<not> is_array_type ot \<longrightarrow> data_arrays nb' = data_arrays nb1)
          \<and> (ot = OSegment \<longrightarrow> sources nb' = sources nb1)
          \<and> (ot = OUnit \<and> par \<noteq> PBlock \<longrightarrow> fst ` set (sources nb') = fst ` set (sources nb1))"
proof -
  let ?E = "existing_names nb par ot"
  let ?D = "map conv obs"
  note nl = assms(2)
  have EL: "set ?E \<subseteq> set (linked nb par ot)" using nl by (intro existing_names_linked) simp
  from write_all_child_writer[OF assms(3,4)] nl
  have n1: "set (linked nb1 par ot) = set (linked nb par ot) \<union> conv ` set obs" by simp
  have "set (to_remove ?E ?D) \<subseteq> fst ` set (nix_objs nb1 par ot)"
    using EL n1 linked_contained[OF nl] by auto
  from del_objs_ok[OF nl distinct_to_remove this] obtain nb' where
    d: "del_objs ot par (to_remove ?E ?D) nb1 = Inr nb'"
    and n2: "fst ` set (nix_objs nb' par ot) = fst ` set (nix_objs nb1 par ot) - set (to_remove ?E ?D)"
    and fr: "sweeps nb' = sweeps nb1 \<and> blk_metadata nb' = blk_metadata nb1
      \<and> (ot \<noteq> OSegment \<longrightarrow> tags nb' = tags nb1)
      \<and> (\<not> is_array_type ot \<longrightarrow> data_arrays nb' = data_arrays nb1)
      \<and> (ot = OSegment \<longrightarrow> sources nb' = sources nb1)
      \<and> (ot = OUnit \<and> par \<noteq> PBlock \<longrightarrow> fst ` set (sources nb') = fst ` set (sources nb1))"
    by blast
  have wm: "write_many ot conv wfn nb par obs = Inr nb'"
    using assms(1,4) d nl by (cases par) (simp_all add: write_many_def Let_def bind_err_def links_objects_def)
  have eq: "set (linked nb' par ot) =
      (set (linked nb par ot) - (set ?E - conv ` set obs)) \<union> (conv ` set obs - set ?E)"
    using n2 n1 EL linked_contained[OF nl] by auto
  from wm eq fr show ?thesis by blast
qed

lemma write_many_effect_tag:
  assumes "obs \<noteq> []" and "is_array_type ot"
    and "child_writer (PTag t) ot conv wfn"
    and "write_all wfn nb obs = Inr nb1"
    and "t \<in> fst ` set (tags nb)"
  shows "\<exists>nb'. write_many ot conv wfn nb (PTag t) obs = Inr nb'
          \<and> set (tag_references nb' t) =
               (set (tag_references nb t) - (set (existing_names nb (PTag t) ot) - conv ` set obs))
               \<union> (conv ` set obs - set (existing_names nb (PTag t) ot))
          \<and> sweeps nb' = sweeps nb1 \<and> blk_metadata nb' = blk_metadata nb1
          \<and> fst ` set (tags nb') = fst ` set (tags nb) \<and> sources nb' = sources nb1
          \<and> data_arrays nb' = data_arrays nb1
          \<and> set (array_names nb1) = set (array_names nb) \<union> conv ` set obs"
proof -
  let ?E = "existing_names nb (PTag t) ot"
  let ?D = "map conv obs"
  have l: "links_objects (PTag t) ot" by (simp add: links_objects_def)
  from write_all_child_writer[OF assms(3,4)] l have t1: "tags nb1 = tags nb"
    and n1: "set (array_names nb1) = set (array_names nb) \<union> conv ` set obs" by simp_all
  have r1: "tag_references nb1 t = tag_references nb t" using t1 by (simp add: tag_references_def)
  have "set (to_remove ?E ?D) \<subseteq> set (tag_references nb1 t)"
    using existing_names_tag_subset[of nb t ot] r1 by auto
  from del_references_ok[OF distinct_to_remove this] obtain nb2 where
    d: "del_references t (to_remove ?E ?D) nb1 = Inr nb2"
    and r2: "set (tag_references nb2 t) = set (tag_references nb1 t) - set (to_remove ?E ?D)"
    and t2: "fst ` set (tags nb2) = fst ` set (tags nb1)"
    and a2: "data_arrays nb2 = data_arrays nb1"
    and f2: "sources nb2 = sources nb1" "sweeps nb2 = sweeps nb1"
      "blk_metadata nb2 = blk_metadata nb1" by blast
  have "set (to_append ?E ?D) \<subseteq> set (array_names nb2)"
    using n1 a2 by (auto simp: array_names_def)
  from append_references_ok[OF this, of t] obtain nb3 where
    a: "append_references t (to_append ?E ?D) nb2 = Inr nb3"
    and r3: "t \<in> fst ` set (tags nb2) \<longrightarrow>
             set (tag_references nb3 t) = set (tag_references nb2 t) \<union> set (to_append ?E ?D)"
    and f3: "fst ` set (tags nb3) = fst ` set (tags nb2)" "data_arrays nb3 = data_arrays nb2"
      "sources nb3 = sources nb2" "sweeps nb3 = sweeps nb2"
      "blk_metadata nb3 = blk_metadata nb2"
    by blast
  have wm: "write_many ot conv wfn nb (PTag t) obs = Inr nb3"
    using assms(1,2,4) l d a
    by (simp add: write_many_def Let_def bind_err_def update_references_def)
  have eq: "set (tag_references nb3 t) =
      (set (tag_references nb t) - (set ?E - conv ` set obs)) \<union> (conv ` set obs - set ?E)"
    using r3 r2 r1 t2 t1 assms(5) by simp
  have fr: "sweeps nb3 = sweeps nb1" "blk_metadata nb3 = blk_metadata nb1"
    "fst ` set (tags nb3) = fst ` set (tags nb)" "sources nb3 = sources nb1"
    "data_arrays nb3 = data_arrays nb1"
    using f2 f3 t2 a2 t1 by simp_all
  from wm eq fr n1 show ?thesis by blast
qed

lemma write_many_effect_source:
  assumes "obs \<noteq> []" and "is_array_type ot"
    and "child_writer (PSource p) ot conv wfn"
    and "write_all wfn nb obs = Inr nb1"
  shows "\<exists>nb'. write_many ot conv wfn nb (PSource p) obs = Inr nb'
          \<and> set (linked nb' (PSource p) ot) =
               (set (linked nb (PSource p) ot)
                  - (set (existing_names nb (PSource p) ot) - conv ` set obs))
               \<union> (conv ` set obs - set (existing_names nb (PSource p) ot))
          \<and> sweeps nb' = sweeps nb1 \<and> blk_metadata nb' = blk_metadata nb1
          \<and> tags nb' = tags nb \<and> sources nb' = sources nb1
          \<and> array_names nb' = array_names nb1
          \<and> set (array_names nb1) = set (array_names nb) \<union> conv ` set obs"
proof -
  let ?par = "PSource p"
  let ?E = "existing_names nb ?par ot"
  let ?D = "map conv obs"
  from assms(2) have nu: "ot \<noteq> OUnit" by (simp add: is_array_type_def)
  then have l: "links_objects ?par ot" by (simp add: links_objects_def)
  have EL: "set ?E \<subseteq> set (linked nb ?par ot)" using assms(2) by (intro existing_names_linked) simp
  from write_all_child_writer[OF assms(3,4)] l have t1: "tags nb1 = tags nb"
    and s1: "\<And>n. array_sources nb1 n = array_sources nb n"
    and n1: "set (array_names nb1) = set (array_names nb) \<union> conv ` set obs" by simp_all
  have lk: "set (linked b ?par ot) = {n \<in> set (array_names b). p \<in> set (array_sources b n)}" for b
    using nu by (auto simp: linked_def)
  have "\<forall>n \<in> set (to_remove ?E ?D). n \<in> set (array_names nb1) \<and> p \<in> set (array_sources nb1 n)"
    using EL lk[of nb] n1 s1 by auto
  from del_sources_ok[OF distinct_to_remove this] obtain nb2 where
    d: "del_sources p (to_remove ?E ?D) nb1 = Inr nb2"
    and s2: "\<And>m. array_sources nb2 m =
             (if m \<in> set (to_remove ?E ?D)
              then filter (\<lambda>s. last s \<noteq> last p) (array_sources nb1 m)
              else array_sources nb1 m)"
    and n2: "array_names nb2 = array_names nb1"
    and f2: "tags nb2 = tags nb1" "sources nb2 = sources nb1" "sweeps nb2 = sweeps nb1"
      "blk_metadata nb2 = blk_metadata nb1" by blast
  have "set (to_append ?E ?D) \<subseteq> set (array_names nb2)" using n1 n2 by auto
  from append_sources_ok[OF this, of p] obtain nb3 where
    a: "append_sources p (to_append ?E ?D) nb2 = Inr nb3"
    and s3: "\<And>m. set (array_sources nb3 m) =
             (if m \<in> set (to_append ?E ?D) then insert p (set (array_sources nb2 m))
              else set (array_sources nb2 m))"
    and n3: "array_names nb3 = array_names nb2"
    and f3: "tags nb3 = tags nb2" "sources nb3 = sources nb2" "sweeps nb3 = sweeps nb2"
      "blk_metadata nb3 = blk_metadata nb2" by blast
  have wm: "write_many ot conv wfn nb ?par obs = Inr nb3"
    using assms(1,2,4) l d a nu
    by (simp add: write_many_def Let_def bind_err_def update_sources_def)
  have eq: "set (linked nb3 ?par ot) =
      (set (linked nb ?par ot) - (set ?E - conv ` set obs)) \<union> (conv ` set obs - set ?E)"
  proof -
    have absent: "p \<notin> set (array_sources nb n)" if "n \<notin> set (array_names nb)" for n
      using that by (simp add: array_sources_absent)
    show ?thesis
      unfolding lk n3 n2 using n1 absent by (auto simp: s3 s2 s1 split: if_splits)
  qed
  have fr: "sweeps nb3 = sweeps nb1" "blk_metadata nb3 = blk_metadata nb1"
    "tags nb3 = tags nb" "sources nb3 = sources nb1" "array_names nb3 = array_names nb1"
    using f2 f3 n2 n3 t1 by simp_all
  from wm eq fr n1 show ?thesis by blast
qed

lemma write_many_reconciles_nonempty:
  assumes "obs \<noteq> []"
    and "links_objects par ot \<longrightarrow> is_array_type ot"
    and "child_writer par ot conv wfn"
    and "write_all wfn nb obs = Inr nb1"
    and "\<forall>t. par = PTag t \<longrightarrow> t \<in> fst ` set (tags nb)"
  shows "\<exists>nb'. write_many ot conv wfn nb par obs = Inr nb'
          \<and> set (linked nb' par ot) =
               (set (linked nb par ot) - (set (existing_names nb par ot) - conv ` set obs))
               \<union> (conv ` set obs - set (existing_names nb par ot))"
proof (cases "links_objects par ot")
  case False
  from write_many_effect_contained[OF assms(1) False assms(3,4)] show ?thesis by blast
next
  case True
  with assms(2) have at: "is_array_type ot" by simp
  show ?thesis
  proof (cases par)
    case PBlock
    with True show ?thesis by (simp add: links_objects_def)
  next
    case (PTag t)
    with assms(5) have "t \<in> fst ` set (tags nb)" by simp
    from write_many_effect_tag[OF assms(1) at assms(3)[unfolded PTag] assms(4) this] PTag
    show ?thesis by (auto simp: linked_def)
  next
    case (PSource p)
    from write_many_effect_source[OF assms(1) at assms(3)[unfolded PSource] assms(4)] PSource
    show ?thesis by blast
  qed
qed

subsection \<open>The writers of the objects\<close>

lemma child_writer_leaf:
  "array_writer conv w \<Longrightarrow> links_objects par ot \<Longrightarrow> child_writer par ot conv (leaf_writer w)"
  by (simp add: child_writer_def array_writer_def leaf_writer_def)


lemma write_many_leaf_source:
  assumes "array_writer conv w" and "is_array_type ot"
  shows "\<exists>nb'. write_many ot conv (leaf_writer w) nb (PSource p) obs = Inr nb'
          \<and> tags nb' = tags nb \<and> sources nb' = sources nb \<and> sweeps nb' = sweeps nb"
proof (cases "obs = []")
  case True
  then show ?thesis by (simp add: write_many_def)
next
  case False
  from write_all_leaf_writer[OF assms(1), of nb obs] obtain nb1 where
    w: "write_all (leaf_writer w) nb obs = Inr nb1" and f: "sources nb1 = sources nb"
    "sweeps nb1 = sweeps nb" by blast
  have cw: "child_writer (PSource p) ot conv (leaf_writer w)"
    using assms by (intro child_writer_leaf) (simp_all add: links_objects_def is_array_type_def)
  from write_many_effect_source[OF False assms(2) cw w] f show ?thesis by auto
qed

lemma is_array_type_simps [simp]:
  "is_array_type OAnalogSignal" "is_array_type OIrregularlySampledSignal"
  "is_array_type OSpikeTrain" "is_array_type OEvent" "is_array_type OEpoch"
  "\<not> is_array_type OSegment" "\<not> is_array_type ORecordingChannelGroup" "\<not> is_array_type OUnit"
  by (simp_all add: is_array_type_def)






lemma write_many_Inr_write_all:
  "write_many ot conv wfn nb par obs = Inr nb' \<Longrightarrow> \<exists>nb1. write_all wfn nb obs = Inr nb1"
  by (cases "obs = []") (auto simp: write_many_def Let_def bind_err_Inr split: if_splits)

lemma write_unit_frame:
  assumes "write_unit hash b r u recursive = Inr b'"
  shows "fst ` set (sources b') = fst ` set (sources b) \<and> tags b' = tags b
       \<and> fst ` set (parent_sources b' (PSource [r])) =
           insert (name u) (fst ` set (parent_sources b (PSource [r])))"
proof -
  from assms obtain s where s: "map_of (sources b) r = Some s"
    by (cases "map_of (sources b) r") (simp_all add: write_unit_def)
  let ?nb1 = "if map_of (src_sources s) (name u) = None
              then b\<lparr>sources := map_source [r]
                     (\<lambda>s. Source (src_type s) (src_metadata s)
                            (src_sources s @ [(name u, Source ''unit'' None [])]))
                     (sources b)\<rparr>
              else b"
  let ?nb2 = "?nb1\<lparr>sources := map_source [r, name u]
                     (\<lambda>s. Source (src_type s) (Some (''units'', name u)) (src_sources s))
                     (sources ?nb1)\<rparr>"
  let ?nb3 = "write_section ?nb2 ''unit'' (name u) (extract_metadata (Unit u))"
  have n3: "fst ` set (sources ?nb3) = fst ` set (sources b)"
    by (simp add: dom_map_entry)
  have t3: "tags ?nb3 = tags b" by simp
  have c3: "fst ` set (parent_sources ?nb3 (PSource [r])) =
            insert (name u) (fst ` set (parent_sources b (PSource [r])))"
    using s by (auto simp: parent_sources_def map_of_map_entry dom_map_entry map_of_eq_None_iff)
  have "\<exists>nb4. b' = clean nb4 \<and> sources nb4 = sources ?nb3 \<and> tags nb4 = tags ?nb3"
  proof (cases recursive)
    case True
    from write_many_leaf_source[OF array_writer_spiketrain, of OSpikeTrain hash ?nb3
        "[r, name u]" "unit_spiketrains u"]
    obtain nb4 where w: "write_many OSpikeTrain (\<lambda>x. get_obj_nix_name hash (SpikeTrain x))
             (leaf_writer (write_spiketrain hash)) ?nb3 (PSource [r, name u]) (unit_spiketrains u)
           = Inr nb4" and f: "tags nb4 = tags ?nb3" "sources nb4 = sources ?nb3" by auto
    have "write_unit hash b r u recursive = Inr (clean nb4)"
      using True s w by (simp add: write_unit_def Let_def bind_err_def)
    with assms f show ?thesis by auto
  next
    case False
    have "write_unit hash b r u recursive = Inr (clean ?nb3)"
      using False s by (simp add: write_unit_def Let_def bind_err_def)
    with assms show ?thesis by auto
  qed
  then obtain nb4 where e: "b' = clean nb4" and f4: "sources nb4 = sources ?nb3"
    "tags nb4 = tags ?nb3" by blast
  with n3 t3 c3 show ?thesis by (simp add: parent_sources_def)
qed

lemma child_writer_unit:
  "child_writer (PSource [r]) OUnit name (\<lambda>b u. write_unit hash b r u True)"
  using write_unit_frame[of hash _ r _ True]
  by (simp add: child_writer_def links_objects_def linked_def nix_objs_names)

lemma write_all_units_frame:
  "write_all (\<lambda>b u. write_unit hash b r u True) nb us = Inr nb1 \<Longrightarrow>
   fst ` set (sources nb1) = fst ` set (sources nb) \<and> tags nb1 = tags nb"
proof (induction us arbitrary: nb)
  case Nil
  then show ?case by simp
next
  case (Cons u us)
  from Cons.prems obtain b1 where w: "write_unit hash nb r u True = Inr b1"
    and r: "write_all (\<lambda>b u. write_unit hash b r u True) b1 us = Inr nb1"
    by (auto split: sum.splits)
  from write_unit_frame[OF w] Cons.IH[OF r] show ?case by simp
qed

lemma write_recordingchannelgroup_frame:
  assumes "write_recordingchannelgroup hash b rcg True = Inr b'"
  shows "fst ` set (sources b') = insert (name rcg) (fst ` set (sources b))"
proof -
  let ?nb1 = "if map_of (sources b) (name rcg) = None
              then b\<lparr>sources := sources b @
                     [(name rcg, Source ''recordingchannelgroup'' None [])]\<rparr>
              else b"
  let ?nb2 = "?nb1\<lparr>sources := map_source [name rcg]
                     (\<lambda>s. Source (src_type s) (Some (''recordingchannelgroups'', name rcg))
                            (src_sources s))
                     (sources ?nb1)\<rparr>"
  let ?nb3 = "write_section ?nb2 ''recordingchannelgroup'' (name rcg)
                (extract_metadata (RecordingChannelGroup rcg))"
  let ?par = "PSource [name rcg]"
  have n3: "fst ` set (sources ?nb3) = insert (name rcg) (fst ` set (sources b))"
    by (auto simp: dom_map_entry map_of_eq_None_iff)
  from assms obtain b4 b5 b6 where
    u: "write_many OUnit name (\<lambda>b u. write_unit hash b (name rcg) u True) ?nb3 ?par (rcg_units rcg) = Inr b4"
    and a: "write_many OAnalogSignal (\<lambda>x. get_obj_nix_name hash (AnalogSignal x))
              (leaf_writer (write_analogsignal hash)) b4 ?par (rcg_analogsignals rcg) = Inr b5"
    and i: "write_many OIrregularlySampledSignal (\<lambda>x. get_obj_nix_name hash (IrregularlySampledSignal x))
              (leaf_writer (write_irregularlysampledsignal hash)) b5 ?par
              (rcg_irregularlysampledsignals rcg) = Inr b6"
    and e: "b' = clean b6"
    by (auto simp: write_recordingchannelgroup_def Let_def bind_err_Inr)
  have n4: "fst ` set (sources b4) = fst ` set (sources ?nb3)"
  proof (cases "rcg_units rcg = []")
    case True
    with u show ?thesis by (simp add: write_many_def)
  next
    case False
    from write_many_Inr_write_all[OF u] obtain nb1 where
      w: "write_all (\<lambda>b u. write_unit hash b (name rcg) u True) ?nb3 (rcg_units rcg) = Inr nb1"
      by blast
    have nl: "\<not> links_objects ?par OUnit" by (simp add: links_objects_def)
    from write_many_effect_contained[OF False nl child_writer_unit w] u
    have "fst ` set (sources b4) = fst ` set (sources nb1)" by auto
    with write_all_units_frame[OF w] show ?thesis by simp
  qed
  have "sources b5 = sources b4"
    using a write_many_leaf_source[OF array_writer_analogsignal, of OAnalogSignal hash b4
        "[name rcg]" "rcg_analogsignals rcg"] by auto
  moreover have "sources b6 = sources b5"
    using i write_many_leaf_source[OF array_writer_irregularlysampledsignal,
        of OIrregularlySampledSignal hash b5 "[name rcg]" "rcg_irregularlysampledsignals rcg"] by auto
  ultimately show ?thesis using n4 n3 e by simp
qed

lemma child_writer_recordingchannelgroup:
  "child_writer PBlock ORecordingChannelGroup name
     (\<lambda>b r. write_recordingchannelgroup hash b r True)"
  using write_recordingchannelgroup_frame[of hash]
  by (simp add: child_writer_def links_objects_def linked_def nix_objs_names)

lemma array_names_write_data_object:
  "is_data_object ob \<Longrightarrow>
   array_names (write_data_object hash nb ob) =
     (if get_obj_nix_name hash ob \<in> set (array_names nb) then array_names nb
      else array_names nb @ [get_obj_nix_name hash ob])"
  by (cases ob)
     (simp_all add: write_analogsignal_def write_irregularlysampledsignal_def write_spiketrain_def
        write_event_def write_epoch_def Let_def map_of_None_array_names split: option.splits)

lemma equal_payload_equal_name:
  "is_data_object a \<Longrightarrow> is_data_object b \<Longrightarrow> payload a = payload b \<Longrightarrow>
   get_obj_nix_name hash a = get_obj_nix_name hash b"
  by (cases a; cases b) simp_all

section \<open>Claims about the writer\<close>

text \<open>
  Claim C4. Two data objects with the same payload get the same name in the container,
  whatever their own names; writing the second after the first creates no data array, so
  the block holds the array of that name once.
\<close>

theorem equal_payload_one_data_array:
  assumes "is_data_object a" and "is_data_object b" and "payload a = payload b"
  shows "get_obj_nix_name hash a = get_obj_nix_name hash b
       \<and> array_names (write_data_object hash (write_data_object hash nb a) b)
            = array_names (write_data_object hash nb a)
       \<and> get_obj_nix_name hash a \<in> set (array_names (write_data_object hash nb a))
       \<and> (distinct (array_names nb) \<longrightarrow>
            length (filter (\<lambda>n. n = get_obj_nix_name hash a)
                      (array_names (write_data_object hash (write_data_object hash nb a) b))) = 1)"
proof -
  have e: "get_obj_nix_name hash a = get_obj_nix_name hash b"
    using assms by (rule equal_payload_equal_name)
  have m: "get_obj_nix_name hash a \<in> set (array_names (write_data_object hash nb a))"
    using assms(1) by (simp add: array_names_write_data_object)
  have s: "array_names (write_data_object hash (write_data_object hash nb a) b)
            = array_names (write_data_object hash nb a)"
    using assms(2) m e by (simp add: array_names_write_data_object)
  have d: "distinct (array_names (write_data_object hash nb a))" if "distinct (array_names nb)"
    using that assms(1) by (simp add: array_names_write_data_object)
  have "length (filter (\<lambda>n. n = x) xs) = 1" if "distinct xs" "x \<in> set xs" for x :: string and xs
    using that by (induction xs) (auto simp: filter_empty_conv)
  with d m s e show ?thesis by simp
qed


theorem equal_payload_one_data_array_witness:
  "d_name (example_signal 2 ''x'' ''mV'') \<noteq> d_name (example_signal 2 ''y'' ''mV'')
   \<and> get_obj_nix_name example_hash (AnalogSignal (example_signal 2 ''x'' ''mV'')) = ''2''
   \<and> get_obj_nix_name example_hash (AnalogSignal (example_signal 2 ''y'' ''mV'')) = ''2''
   \<and> array_names (write_data_object example_hash
         (write_data_object example_hash new_block (AnalogSignal (example_signal 2 ''x'' ''mV'')))
         (AnalogSignal (example_signal 2 ''y'' ''mV''))) = [''2'']"
  using equal_payload_one_data_array
    [of "AnalogSignal (example_signal 2 ''x'' ''mV'')" "AnalogSignal (example_signal 2 ''y'' ''mV'')"
        example_hash new_block]
    array_names_write_data_object
    [of "AnalogSignal (example_signal 2 ''x'' ''mV'')" example_hash new_block]
  by (simp add: example_signal_def example_hash_def str_int_def digit_char_def new_block_def
      array_names_def)




text \<open>
  Claim C1, as stated, includes an empty desired collection: then every existing child is
  in \<open>to_remove\<close>. But \<open>write_many\<close> returns at once when the collection is
  empty, and the children stay linked.
\<close>

theorem write_many_empty_counterexample:
  "write_many OAnalogSignal (\<lambda>x. get_obj_nix_name example_hash (AnalogSignal x))
     (leaf_writer (write_analogsignal example_hash)) example_nix_block (PTag ''trial'') []
     = Inr example_nix_block
   \<and> existing_names example_nix_block (PTag ''trial'') OAnalogSignal = [''1'', ''2'']
   \<and> to_remove (existing_names example_nix_block (PTag ''trial'') OAnalogSignal) [] = [''1'', ''2'']
   \<and> linked example_nix_block (PTag ''trial'') OAnalogSignal = [''1'', ''2'']"
  by (simp add: write_many_def existing_names_def nix_objs_def example_nix_block_def
      example_array_def tag_references_def to_remove_def linked_def)

text \<open>
  Claim C1, amended: with an empty desired collection \<open>write_many\<close> changes nothing.
  With a desired collection that is not empty, once its objects are written,
  \<open>write_many\<close> returns, and the children linked to the parent afterwards are those
  linked before without \<open>to_remove = existing - desired\<close> and with
  \<open>to_append = desired - existing\<close>. The function that writes one child is any
  \<open>child_writer\<close>: the writers of the five data objects under a tag or a source
  (\<open>child_writer_leaf\<close> with \<open>array_writer_analogsignal\<close> and the four lemmas
  like it), \<open>write_segment\<close> and \<open>write_recordingchannelgroup\<close> under a block
  and \<open>write_unit\<close> under a channel group (\<open>child_writer_segment\<close>,
  \<open>child_writer_recordingchannelgroup\<close>, \<open>child_writer_unit\<close>).
\<close>

theorem write_many_reconciles:
  assumes "links_objects par ot \<longrightarrow> is_array_type ot"
    and "child_writer par ot conv wfn"
    and "write_all wfn nb obs = Inr nb1"
    and "\<forall>t. par = PTag t \<longrightarrow> t \<in> fst ` set (tags nb)"
  shows "if obs = [] then write_many ot conv wfn nb par obs = Inr nb
         else (\<exists>nb'. write_many ot conv wfn nb par obs = Inr nb'
                \<and> set (linked nb' par ot) =
                     (set (linked nb par ot) - (set (existing_names nb par ot) - conv ` set obs))
                     \<union> (conv ` set obs - set (existing_names nb par ot)))"
proof (cases "obs = []")
  case True
  then show ?thesis by (simp add: write_many_def)
next
  case False
  from write_many_reconciles_nonempty[OF False assms] False show ?thesis by simp
qed

theorem write_many_reconciles_witness:
  "case write_many OAnalogSignal (\<lambda>x. get_obj_nix_name example_hash (AnalogSignal x))
          (leaf_writer (write_analogsignal example_hash)) example_nix_block (PTag ''trial'')
          [example_signal 2 ''b'' ''mV'', example_signal 3 ''c'' ''mV''] of
     Inl e \<Rightarrow> False
   | Inr nb' \<Rightarrow> set (linked nb' (PTag ''trial'') OAnalogSignal) = {''2'', ''3''}"
proof -
  let ?conv = "\<lambda>x. get_obj_nix_name example_hash (AnalogSignal x)"
  let ?obs = "[example_signal 2 ''b'' ''mV'', example_signal 3 ''c'' ''mV'']"
  have cw: "child_writer (PTag ''trial'') OAnalogSignal ?conv (leaf_writer (write_analogsignal example_hash))"
    by (rule child_writer_leaf[OF array_writer_analogsignal]) (simp add: links_objects_def)
  from write_all_leaf_writer[OF array_writer_analogsignal, of example_hash example_nix_block ?obs]
  obtain nb1 where w: "write_all (leaf_writer (write_analogsignal example_hash)) example_nix_block ?obs = Inr nb1"
    by blast
  have e: "existing_names example_nix_block (PTag ''trial'') OAnalogSignal = [''1'', ''2'']"
    and l: "linked example_nix_block (PTag ''trial'') OAnalogSignal = [''1'', ''2'']"
    by (simp_all add: existing_names_def nix_objs_def example_nix_block_def
      example_array_def tag_references_def linked_def)
  have d: "?conv ` set ?obs = {''2'', ''3''}"
    by (simp add: example_signal_def example_hash_def str_int_def digit_char_def)
  have "if ?obs = [] then write_many OAnalogSignal ?conv (leaf_writer (write_analogsignal example_hash))
               example_nix_block (PTag ''trial'') ?obs = Inr example_nix_block
         else (\<exists>nb'. write_many OAnalogSignal ?conv (leaf_writer (write_analogsignal example_hash))
                    example_nix_block (PTag ''trial'') ?obs = Inr nb'
                \<and> set (linked nb' (PTag ''trial'') OAnalogSignal) =
                     (set (linked example_nix_block (PTag ''trial'') OAnalogSignal)
                        - (set (existing_names example_nix_block (PTag ''trial'') OAnalogSignal)
                             - ?conv ` set ?obs))
                     \<union> (?conv ` set ?obs
                          - set (existing_names example_nix_block (PTag ''trial'') OAnalogSignal)))"
    by (rule write_many_reconciles[OF _ cw w]) (simp_all add: links_objects_def example_nix_block_def)
  then obtain nb' where
    "write_many OAnalogSignal ?conv (leaf_writer (write_analogsignal example_hash))
        example_nix_block (PTag ''trial'') ?obs = Inr nb'"
    "set (linked nb' (PTag ''trial'') OAnalogSignal) =
        (set [''1'', ''2''] - (set [''1'', ''2''] - {''2'', ''3''})) \<union> ({''2'', ''3''} - set [''1'', ''2''])"
    unfolding e l d by auto
  then show ?thesis by auto
qed

end
